theory Spec2Isabelle
  imports Main "HOL-Library.Sublist" "HOL-Library.AList"
begin

chapter \<open>Library names, the library manager, the cached storage and package processing\<close>

text \<open>
  A shallow embedding of the parts of the H5P library for Node.js that install
  libraries and cache their storage: \<open>LibraryName\<close>, \<open>LibraryManager\<close>,
  \<open>CachedLibraryStorage\<close> and \<open>PackageManager\<close>. A rejected promise or a thrown
  error is the left summand of a result; a method that writes takes the state it
  writes to and returns the new one. Version numbers are natural numbers; strings are
  lists of 8-bit characters.
\<close>


section \<open>Library identities (LibraryName.ts)\<close>

record library_name =
  machineName :: string
  majorVersion :: nat
  minorVersion :: nat

text \<open>
  The errors the code throws, each with its message: \<open>H5pError\<close>, the plain
  \<open>Error\<close>, the \<open>TypeError\<close> of a property read on \<open>undefined\<close>, the
  \<open>SyntaxError\<close> of \<open>JSON.parse\<close>, and the two errors of the package validator.
\<close>

datatype error =
    H5pError string
  | Error string
  | TypeError string
  | SyntaxError string
  | StructuralError string
  | ValidationError string

fun message :: "error \<Rightarrow> string" where
  "message (H5pError m) = m"
| "message (Error m) = m"
| "message (TypeError m) = m"
| "message (SyntaxError m) = m"
| "message (StructuralError m) = m"
| "message (ValidationError m) = m"

text \<open>
  The options of \<open>fromUberName\<close> and \<open>toUberName\<close>; a field left out is
  \<open>undefined\<close>, which the code tests like \<open>false\<close>. The default is the hyphen.
\<close>

record name_options =
  useHyphen :: bool
  useWhitespace :: bool

definition default_options :: name_options where
  "default_options = \<lparr>useHyphen = True, useWhitespace = False\<rparr>"

text \<open>
  A version number in a template string is printed in decimal, without leading zeros;
  \<open>Number.parseInt(s, 10)\<close> is applied to strings of decimal digits only (the groups
  \<open>\d+\<close>). \<open>is_space\<close> is the class \<open>\s\<close> on 8-bit characters.
\<close>

definition digit_char :: "nat \<Rightarrow> char" where
  "digit_char d = ''0123456789'' ! d"

fun show_nat :: "nat \<Rightarrow> string" where
  "show_nat n = (if n < 10 then [digit_char n] else show_nat (n div 10) @ [digit_char (n mod 10)])"

declare show_nat.simps [simp del]

definition is_digit :: "char \<Rightarrow> bool" where
  "is_digit c = (c \<in> set ''0123456789'')"

definition is_space :: "char \<Rightarrow> bool" where
  "is_space c = (c \<in> set [CHR 0x09, CHR 0x0A, CHR 0x0B, CHR 0x0C, CHR 0x0D, CHR 0x20, CHR 0xA0])"

definition digit_val :: "char \<Rightarrow> nat" where
  "digit_val c = of_char c - 48"

definition parseInt :: "string \<Rightarrow> nat" where
  "parseInt ds = foldl (\<lambda>acc c. 10 * acc + digit_val c) 0 ds"

definition toUberName_opt :: "'a library_name_scheme \<Rightarrow> name_options \<Rightarrow> string" where
  "toUberName_opt libraryName options =
     (if useHyphen options then
        machineName libraryName @ ''-'' @ show_nat (majorVersion libraryName) @ ''.''
          @ show_nat (minorVersion libraryName)
      else if useWhitespace options then
        machineName libraryName @ '' '' @ show_nat (majorVersion libraryName) @ ''.''
          @ show_nat (minorVersion libraryName)
      else [])"

definition toUberName :: "'a library_name_scheme \<Rightarrow> string" where
  "toUberName libraryName = toUberName_opt libraryName default_options"

text \<open>
  The regular expressions \<open>([^\s]+)S(\d+)\.(\d+)\<close>, where the separator \<open>S\<close> is
  \<open>-\<close>, \<open>\s\<close> or \<open>[-\s]\<close>, are not anchored: \<open>exec\<close> takes the leftmost start
  at which a match exists (\<open>regex_exec\<close>); from a start, the first group is greedy
  and backtracks from the longest run of non-whitespace characters to the shortest
  (\<open>match_at\<close>, \<open>match_from\<close>), until the rest begins with a separator, digits, a
  dot and digits (\<open>match_version\<close>). In \<open>match_version\<close> each digit group takes all the
  digits there are: after fewer digits of the first group the next character is a digit
  and not the dot, and nothing follows the second group.
\<close>

definition match_version :: "(char \<Rightarrow> bool) \<Rightarrow> string \<Rightarrow> (string \<times> string) option" where
  "match_version sep rest =
     (case rest of
        [] \<Rightarrow> None
      | c # r1 \<Rightarrow>
          if \<not> sep c then None
          else if takeWhile is_digit r1 = [] then None
          else (case dropWhile is_digit r1 of
                  [] \<Rightarrow> None
                | d # r2 \<Rightarrow>
                    if d \<noteq> CHR ''.'' then None
                    else if takeWhile is_digit r2 = [] then None
                    else Some (takeWhile is_digit r1, takeWhile is_digit r2)))"

fun match_from :: "(char \<Rightarrow> bool) \<Rightarrow> nat \<Rightarrow> string \<Rightarrow> (string \<times> string \<times> string) option" where
  "match_from sep 0 s = None"
| "match_from sep (Suc k) s =
     (case match_version sep (drop (Suc k) s) of
        Some (a, b) \<Rightarrow> Some (take (Suc k) s, a, b)
      | None \<Rightarrow> match_from sep k s)"

definition match_at :: "(char \<Rightarrow> bool) \<Rightarrow> string \<Rightarrow> (string \<times> string \<times> string) option" where
  "match_at sep s = match_from sep (length (takeWhile (\<lambda>c. \<not> is_space c) s)) s"

fun regex_exec :: "(char \<Rightarrow> bool) \<Rightarrow> string \<Rightarrow> (string \<times> string \<times> string) option" where
  "regex_exec sep [] = None"
| "regex_exec sep (c # cs) =
     (case match_at sep (c # cs) of
        Some r \<Rightarrow> Some r
      | None \<Rightarrow> regex_exec sep cs)"

definition nameRegex :: "name_options \<Rightarrow> char \<Rightarrow> bool" where
  "nameRegex options =
     (if useHyphen options \<and> useWhitespace options then (\<lambda>c. c = CHR ''-'' \<or> is_space c)
      else if useHyphen options then (\<lambda>c. c = CHR ''-'')
      else is_space)"

definition fromUberName_opt :: "string \<Rightarrow> name_options \<Rightarrow> error + library_name option" where
  "fromUberName_opt libraryName options =
     (if \<not> useHyphen options \<and> \<not> useWhitespace options then
        Inl (H5pError ''You must call fromUberName with either the useHyphen or useWhitespace option, or both!'')
      else
        (case regex_exec (nameRegex options) libraryName of
           None \<Rightarrow> Inr None
         | Some (g1, g2, g3) \<Rightarrow>
             Inr (Some \<lparr>machineName = g1, majorVersion = parseInt g2, minorVersion = parseInt g3\<rparr>)))"

definition fromUberName :: "string \<Rightarrow> error + library_name option" where
  "fromUberName libraryName = fromUberName_opt libraryName default_options"



section \<open>Library metadata, files and directories\<close>

text \<open>
  \<open>ILibraryMetadata\<close> extends \<open>ILibraryName\<close>; the asset lists are optional in
  \<open>library.json\<close> (the code tests \<open>if (metadata.preloadedJs)\<close>), and each holds the
  \<open>path\<close> fields of its entries. \<open>IInstalledLibrary\<close> adds the storage-assigned id.
\<close>

record library_metadata = library_name +
  patchVersion :: nat
  runnable :: bool
  title :: string
  preloadedJs :: "string list option"
  preloadedCss :: "string list option"

record installed_library = library_metadata +
  libraryId :: "nat option"
  restricted :: bool

definition name_of :: "'a library_name_scheme \<Rightarrow> library_name" where
  "name_of l = \<lparr>machineName = machineName l, majorVersion = majorVersion l,
                 minorVersion = minorVersion l\<rparr>"

definition metadata_of :: "'a library_metadata_scheme \<Rightarrow> library_metadata" where
  "metadata_of m = \<lparr>machineName = machineName m, majorVersion = majorVersion m,
     minorVersion = minorVersion m, patchVersion = patchVersion m, runnable = runnable m,
     title = title m, preloadedJs = preloadedJs m, preloadedCss = preloadedCss m\<rparr>"

text \<open>
  A file holds either a parsed library descriptor (the content of a \<open>library.json\<close>) or
  other bytes. \<open>JSON.parse\<close> of a descriptor gives the metadata; reading other bytes
  as a descriptor is the failing branch.
\<close>

datatype file_content = Descriptor library_metadata | Bytes string

definition JSON_parse :: "file_content \<Rightarrow> error + library_metadata" where
  "JSON_parse c = (case c of
      Descriptor m \<Rightarrow> Inr m
    | Bytes b \<Rightarrow> Inl (SyntaxError ''Unexpected token in JSON''))"

text \<open>
  A directory on the local disk, as \<open>installFromDirectory\<close> sees it: relative paths
  (separator \<open>/\<close>) of the files and sub-directories below it. A read stream opened on
  a sub-directory fails when it is read.
\<close>

datatype dir_entry = File file_content | Folder

type_synonym directory = "(string \<times> dir_entry) list"

datatype read_stream = Stream file_content | BrokenStream

definition createReadStream :: "dir_entry \<Rightarrow> read_stream" where
  "createReadStream e = (case e of File c \<Rightarrow> Stream c | Folder \<Rightarrow> BrokenStream)"

definition readJSON :: "directory \<Rightarrow> string \<Rightarrow> error + library_metadata" where
  "readJSON dir file = (case map_of dir file of
      None \<Rightarrow> Inl (Error ''ENOENT: no such file or directory'')
    | Some Folder \<Rightarrow> Inl (Error ''EISDIR: illegal operation on a directory'')
    | Some (File c) \<Rightarrow> JSON_parse c)"

fun split_on :: "char \<Rightarrow> string \<Rightarrow> string list" where
  "split_on sep [] = [[]]"
| "split_on sep (c # cs) =
     (if c = sep then [] # split_on sep cs
      else (case split_on sep cs of
              [] \<Rightarrow> [[c]]
            | seg # segs \<Rightarrow> (c # seg) # segs))"

fun join :: "string \<Rightarrow> string list \<Rightarrow> string" where
  "join sep [] = []"
| "join sep [x] = x"
| "join sep (x # y # ys) = x @ sep @ join sep (y # ys)"

text \<open>
  The pattern \<open>**/*.*\<close> of \<open>copyLibraryFiles\<close>: every path segment is non-empty and
  does not start with a dot (glob skips hidden names), and the last segment contains
  a dot. The pattern selects sub-directories as well as files.
\<close>

definition glob_match :: "string \<Rightarrow> bool" where
  "glob_match p =
     (let segs = split_on (CHR ''/'') p
      in (\<forall>s \<in> set segs. s \<noteq> [] \<and> hd s \<noteq> CHR ''.'') \<and> CHR ''.'' \<in> set (last segs))"

definition globPromise :: "directory \<Rightarrow> directory" where
  "globPromise dir = filter (\<lambda>(p, e). glob_match p) dir"

section \<open>The library storage behind the manager\<close>

text \<open>
  Modelled from the spec: the library storage backend (\<open>ILibraryStorage\<close>, section 6 of
  the specification), whose implementations are not among the source files. It keeps,
  per identity, the storage-assigned id, the restricted flag, the metadata and the
  files; \<open>library.json\<close> is served from the metadata. An operation on an identity
  fails when its precondition on that identity fails (installing what is installed;
  updating, clearing, removing or writing to what is not); writing a file also fails
  for a broken stream and for a name the medium refuses (\<open>unwritable\<close>). A failed
  operation leaves the storage as it was. \<open>getInstalled\<close> without machine names lists
  every installed identity.
\<close>

type_synonym library_key = "string \<times> nat \<times> nat"

definition key_of :: "'a library_name_scheme \<Rightarrow> library_key" where
  "key_of l = (machineName l, majorVersion l, minorVersion l)"

record stored_library =
  lib_id :: nat
  lib_restricted :: bool
  lib_metadata :: library_metadata
  lib_files :: "(string \<times> file_content) list"

record storage =
  stored :: "(library_key \<times> stored_library) list"
  next_id :: nat
  unwritable :: "string list"

definition lookup :: "storage \<Rightarrow> 'a library_name_scheme \<Rightarrow> stored_library option" where
  "lookup st l = map_of (stored st) (key_of l)"

definition put :: "'a library_name_scheme \<Rightarrow> stored_library \<Rightarrow> storage \<Rightarrow> storage" where
  "put l e st = st\<lparr>stored := AList.update (key_of l) e (stored st)\<rparr>"

definition not_installed :: "'a library_name_scheme \<Rightarrow> error" where
  "not_installed l = Error (''Library '' @ toUberName l @ '' is not installed on the system.'')"

definition mem_getId :: "storage \<Rightarrow> 'a library_name_scheme \<Rightarrow> nat option" where
  "mem_getId st l = map_option lib_id (lookup st l)"

definition mem_installLibrary ::
  "'a library_metadata_scheme \<Rightarrow> bool \<Rightarrow> storage \<Rightarrow> (error + installed_library) \<times> storage" where
  "mem_installLibrary m r st =
     (case lookup st m of
        Some e \<Rightarrow> (Inl (Error (''Library '' @ toUberName m @ '' has already been installed.'')), st)
      | None \<Rightarrow>
          (Inr (library_metadata.extend (metadata_of m)
                  \<lparr>libraryId = Some (next_id st), restricted = r\<rparr>),
           (put m \<lparr>lib_id = next_id st, lib_restricted = r, lib_metadata = metadata_of m,
                   lib_files = []\<rparr> st)\<lparr>next_id := Suc (next_id st)\<rparr>))"

definition mem_updateLibrary ::
  "'a library_metadata_scheme \<Rightarrow> storage \<Rightarrow> (error + installed_library) \<times> storage" where
  "mem_updateLibrary m st =
     (case lookup st m of
        None \<Rightarrow> (Inl (not_installed m), st)
      | Some e \<Rightarrow>
          (Inr (library_metadata.extend (metadata_of m)
                  \<lparr>libraryId = Some (lib_id e), restricted = lib_restricted e\<rparr>),
           put m (e\<lparr>lib_metadata := metadata_of m\<rparr>) st))"

definition mem_removeLibrary ::
  "'a library_name_scheme \<Rightarrow> storage \<Rightarrow> (error + bool) \<times> storage" where
  "mem_removeLibrary l st =
     (case lookup st l of
        None \<Rightarrow> (Inl (not_installed l), st)
      | Some e \<Rightarrow> (Inr True, st\<lparr>stored := AList.delete (key_of l) (stored st)\<rparr>))"

definition mem_clearLibraryFiles ::
  "'a library_name_scheme \<Rightarrow> storage \<Rightarrow> (error + unit) \<times> storage" where
  "mem_clearLibraryFiles l st =
     (case lookup st l of
        None \<Rightarrow> (Inl (not_installed l), st)
      | Some e \<Rightarrow> (Inr (), put l (e\<lparr>lib_files := []\<rparr>) st))"

definition mem_addLibraryFile ::
  "'a library_name_scheme \<Rightarrow> string \<Rightarrow> read_stream \<Rightarrow> storage \<Rightarrow> (error + bool) \<times> storage" where
  "mem_addLibraryFile l filename stream st =
     (case lookup st l of
        None \<Rightarrow> (Inl (not_installed l), st)
      | Some e \<Rightarrow>
          (case stream of
             BrokenStream \<Rightarrow> (Inl (Error ''EISDIR: illegal operation on a directory, read''), st)
           | Stream c \<Rightarrow>
               if filename \<in> set (unwritable st)
               then (Inl (Error (''Cannot write '' @ filename)), st)
               else (Inr True, put l (e\<lparr>lib_files := AList.update filename c (lib_files e)\<rparr>) st)))"

definition mem_fileExists :: "storage \<Rightarrow> 'a library_name_scheme \<Rightarrow> string \<Rightarrow> bool" where
  "mem_fileExists st l filename =
     (case lookup st l of
        None \<Rightarrow> False
      | Some e \<Rightarrow> filename = ''library.json'' \<or> map_of (lib_files e) filename \<noteq> None)"

definition mem_getFileStream ::
  "storage \<Rightarrow> 'a library_name_scheme \<Rightarrow> string \<Rightarrow> error + file_content" where
  "mem_getFileStream st l filename =
     (case lookup st l of
        None \<Rightarrow> Inl (not_installed l)
      | Some e \<Rightarrow>
          if filename = ''library.json'' then Inr (Descriptor (lib_metadata e))
          else (case map_of (lib_files e) filename of
                  None \<Rightarrow> Inl (Error (''ENOENT: '' @ filename))
                | Some c \<Rightarrow> Inr c))"

definition mem_getInstalled :: "storage \<Rightarrow> string list \<Rightarrow> library_name list" where
  "mem_getInstalled st machineNames =
     map (\<lambda>((n, major, minor), e). \<lparr>machineName = n, majorVersion = major, minorVersion = minor\<rparr>)
       (filter (\<lambda>((n, major, minor), e). machineNames = [] \<or> n \<in> set machineNames)
          (stored st))"

definition mem_listFiles :: "storage \<Rightarrow> 'a library_name_scheme \<Rightarrow> error + string list" where
  "mem_listFiles st l =
     (case lookup st l of
        None \<Rightarrow> Inl (not_installed l)
      | Some e \<Rightarrow> Inr (map fst (lib_files e)))"

section \<open>The library manager (LibraryManager)\<close>

text \<open>
  Every function takes the storage state and, when it writes, returns the new one
  beside its result. A rejected promise is \<open>Inl\<close>. \<open>truthy\<close> is the test JavaScript
  applies to the result of \<open>getId\<close>: \<open>undefined\<close> and the number 0 are false.
\<close>

definition truthy :: "nat option \<Rightarrow> bool" where
  "truthy i = (case i of None \<Rightarrow> False | Some n \<Rightarrow> n \<noteq> 0)"

definition getId :: "storage \<Rightarrow> 'a library_name_scheme \<Rightarrow> nat option" where
  "getId st library = mem_getId st library"

text \<open>
  Modelled from the spec: \<open>LibraryName.toDirName\<close>, which the given \<open>LibraryName.ts\<close>
  does not hold; a library directory is named \<open><machineName>-<majorVersion>.<minorVersion>\<close>.
\<close>

definition toDirName :: "'a library_name_scheme \<Rightarrow> string" where
  "toDirName l = machineName l @ ''-'' @ show_nat (majorVersion l) @ ''.'' @ show_nat (minorVersion l)"

definition getJsonFile ::
  "storage \<Rightarrow> 'a library_name_scheme \<Rightarrow> string \<Rightarrow> error + library_metadata" where
  "getJsonFile st library file =
     (case mem_getFileStream st library file of
        Inl e \<Rightarrow> Inl e
      | Inr c \<Rightarrow> JSON_parse c)"

definition loadLibrary :: "storage \<Rightarrow> 'a library_name_scheme \<Rightarrow> installed_library option" where
  "loadLibrary st library =
     (case getJsonFile st library ''library.json'' of
        Inl ignored \<Rightarrow> None
      | Inr libraryMetadata \<Rightarrow>
          Some (library_metadata.extend libraryMetadata
                  \<lparr>libraryId = getId st library, restricted = False\<rparr>))"

text \<open>
  \<open>getInstalled\<close>: the names the storage lists, each completed from its
  \<open>library.json\<close> (reading \<open>info.patchVersion\<close> of an undefined \<open>info\<close> is a
  TypeError), sorted with the comparison of \<open>InstalledLibrary.compare\<close> and grouped by
  machine name. The comparison is the parameter \<open>cmp\<close>: its class is not among the
  source files. The sort is an insertion sort that keeps equal elements in order. The
  object that groups the libraries is a map from machine names to lists; the
  properties a JavaScript object inherits are not part of it.
\<close>

definition complete_info :: "storage \<Rightarrow> library_name \<Rightarrow> error + installed_library" where
  "complete_info st libName =
     (case loadLibrary st libName of
        None \<Rightarrow> Inl (TypeError ''Cannot read property patchVersion of undefined'')
      | Some info \<Rightarrow>
          Inr \<lparr>machineName = machineName libName, majorVersion = majorVersion libName,
               minorVersion = minorVersion libName, patchVersion = patchVersion info,
               runnable = runnable info, title = title info,
               preloadedJs = None, preloadedCss = None,
               libraryId = libraryId info, restricted = False\<rparr>)"

fun all_or_first_error :: "(error + 'a) list \<Rightarrow> error + 'a list" where
  "all_or_first_error [] = Inr []"
| "all_or_first_error (Inl e # rs) = Inl e"
| "all_or_first_error (Inr x # rs) =
     (case all_or_first_error rs of Inl e \<Rightarrow> Inl e | Inr xs \<Rightarrow> Inr (x # xs))"

fun insert_by :: "('a \<Rightarrow> 'a \<Rightarrow> int) \<Rightarrow> 'a \<Rightarrow> 'a list \<Rightarrow> 'a list" where
  "insert_by cmp x [] = [x]"
| "insert_by cmp x (y # ys) =
     (if cmp x y < 0 then x # y # ys else y # insert_by cmp x ys)"

definition sort_by :: "('a \<Rightarrow> 'a \<Rightarrow> int) \<Rightarrow> 'a list \<Rightarrow> 'a list" where
  "sort_by cmp xs = foldl (\<lambda>acc x. insert_by cmp x acc) [] xs"

definition push_library ::
  "(string \<rightharpoonup> installed_library list) \<Rightarrow> installed_library \<Rightarrow> (string \<rightharpoonup> installed_library list)" where
  "push_library returnObject library =
     returnObject(machineName library \<mapsto>
       (case returnObject (machineName library) of None \<Rightarrow> [] | Some ls \<Rightarrow> ls) @ [library])"

definition getInstalled ::
  "(installed_library \<Rightarrow> installed_library \<Rightarrow> int) \<Rightarrow> storage \<Rightarrow> string list
     \<Rightarrow> error + (string \<rightharpoonup> installed_library list)" where
  "getInstalled cmp st machineNames =
     (case all_or_first_error (map (complete_info st) (mem_getInstalled st machineNames)) of
        Inl e \<Rightarrow> Inl e
      | Inr libraries \<Rightarrow> Inr (foldl push_library Map.empty (sort_by cmp libraries)))"

fun patched_in :: "installed_library list \<Rightarrow> 'a library_metadata_scheme \<Rightarrow> bool" where
  "patched_in [] library = False"
| "patched_in (lib # libs) library =
     (if majorVersion lib = majorVersion library \<and> minorVersion lib = minorVersion library
      then patchVersion lib < patchVersion library
      else patched_in libs library)"

definition isPatchedLibrary ::
  "(installed_library \<Rightarrow> installed_library \<Rightarrow> int) \<Rightarrow> storage \<Rightarrow> 'a library_metadata_scheme
     \<Rightarrow> error + bool" where
  "isPatchedLibrary cmp st library =
     (case getInstalled cmp st [machineName library] of
        Inl e \<Rightarrow> Inl e
      | Inr wrappedLibraryInfos \<Rightarrow>
          (case wrappedLibraryInfos (machineName library) of
             None \<Rightarrow> Inr False
           | Some libraryInfos \<Rightarrow> Inr (patched_in libraryInfos library)))"

definition checkFiles :: "storage \<Rightarrow> 'a library_name_scheme \<Rightarrow> string list \<Rightarrow> error + bool" where
  "checkFiles st library requiredFiles =
     (let missingFiles = filter (\<lambda>file. \<not> mem_fileExists st library file) requiredFiles
      in if length missingFiles > 0
         then Inl (Error (''Error(s) in library '' @ toDirName library @ '':'' @ [CHR 0x0A]
                @ join [CHR 0x0A] (map (\<lambda>file. file @ '' is missing.'') missingFiles)))
         else Inr True)"

definition checkConsistency :: "storage \<Rightarrow> 'a library_name_scheme \<Rightarrow> error + bool" where
  "checkConsistency st library =
     (if \<not> truthy (mem_getId st library)
      then Inl (Error (''Error in library '' @ toDirName library @ '': not installed.''))
      else
        (case getJsonFile st library ''library.json'' of
           Inl e \<Rightarrow> Inl (Error (''Error in library '' @ toDirName library
                      @ '': library.json not readable: '' @ message e @ ''.''))
         | Inr metadata \<Rightarrow>
             (case (case preloadedJs metadata of
                      None \<Rightarrow> Inr True
                    | Some js \<Rightarrow> checkFiles st library js) of
                Inl e \<Rightarrow> Inl e
              | Inr ok \<Rightarrow>
                  (case (case preloadedCss metadata of
                           None \<Rightarrow> Inr True
                         | Some css \<Rightarrow> checkFiles st library css) of
                     Inl e \<Rightarrow> Inl e
                   | Inr ok' \<Rightarrow> Inr True))))"

text \<open>
  \<open>copyLibraryFiles\<close>: \<open>files.map\<close> starts one \<open>addLibraryFile\<close> per selected path,
  in order, and \<open>Promise.all\<close> rejects with the first failure. Every started write
  is run here; the result is the first error, if any.
\<close>

definition copy_one ::
  "'a library_name_scheme \<Rightarrow> string \<times> dir_entry \<Rightarrow> (error option \<times> storage) \<Rightarrow> (error option \<times> storage)" where
  "copy_one libraryInfo f acc =
     (case f of (fileLocalPath, entry) \<Rightarrow>
        (case acc of (err, st) \<Rightarrow>
           if fileLocalPath = ''library.json'' then (err, st)
           else (case mem_addLibraryFile libraryInfo fileLocalPath (createReadStream entry) st of
                   (Inl e, st') \<Rightarrow> ((case err of None \<Rightarrow> Some e | Some e0 \<Rightarrow> Some e0), st')
                 | (Inr ok, st') \<Rightarrow> (err, st'))))"

definition copyLibraryFiles ::
  "directory \<Rightarrow> 'a library_name_scheme \<Rightarrow> storage \<Rightarrow> (error + unit) \<times> storage" where
  "copyLibraryFiles fromDirectory libraryInfo st =
     (case fold (copy_one libraryInfo) (globPromise fromDirectory) (None, st) of
        (None, st') \<Rightarrow> (Inr (), st')
      | (Some e, st') \<Rightarrow> (Inl e, st'))"

definition rollback ::
  "'a library_name_scheme \<Rightarrow> error \<Rightarrow> storage \<Rightarrow> (error + 'b) \<times> storage" where
  "rollback library err st =
     (case mem_removeLibrary library st of
        (Inl e', st') \<Rightarrow> (Inl e', st')
      | (Inr ok, st') \<Rightarrow> (Inl err, st'))"

text \<open>The bodies of the two \<open>try\<close> blocks, then the methods that wrap them.\<close>

definition installLibrary_try ::
  "directory \<Rightarrow> installed_library \<Rightarrow> 'a library_metadata_scheme \<Rightarrow> storage
     \<Rightarrow> (error + unit) \<times> storage" where
  "installLibrary_try fromDirectory newLibraryInfo libraryMetadata st =
     (case copyLibraryFiles fromDirectory newLibraryInfo st of
        (Inl e, st1) \<Rightarrow> (Inl e, st1)
      | (Inr u, st1) \<Rightarrow>
          (case checkConsistency st1 libraryMetadata of
             Inl e \<Rightarrow> (Inl e, st1)
           | Inr ok \<Rightarrow> (Inr (), st1)))"

definition installLibrary ::
  "directory \<Rightarrow> 'a library_metadata_scheme \<Rightarrow> bool \<Rightarrow> storage
     \<Rightarrow> (error + installed_library) \<times> storage" where
  "installLibrary fromDirectory libraryMetadata restr st =
     (case mem_installLibrary libraryMetadata restr st of
        (Inl e, st1) \<Rightarrow> (Inl e, st1)
      | (Inr newLibraryInfo, st1) \<Rightarrow>
          (case installLibrary_try fromDirectory newLibraryInfo libraryMetadata st1 of
             (Inl e, st2) \<Rightarrow> rollback libraryMetadata e st2
           | (Inr u, st2) \<Rightarrow> (Inr newLibraryInfo, st2)))"

definition updateLibrary_try ::
  "'a library_metadata_scheme \<Rightarrow> directory \<Rightarrow> storage \<Rightarrow> (error + unit) \<times> storage" where
  "updateLibrary_try newLibraryMetadata filesDirectory st =
     (case mem_updateLibrary newLibraryMetadata st of
        (Inl e, st1) \<Rightarrow> (Inl e, st1)
      | (Inr upd, st1) \<Rightarrow>
          (case mem_clearLibraryFiles newLibraryMetadata st1 of
             (Inl e, st2) \<Rightarrow> (Inl e, st2)
           | (Inr u, st2) \<Rightarrow>
               (case copyLibraryFiles filesDirectory newLibraryMetadata st2 of
                  (Inl e, st3) \<Rightarrow> (Inl e, st3)
                | (Inr u', st3) \<Rightarrow>
                    (case checkConsistency st3 newLibraryMetadata of
                       Inl e \<Rightarrow> (Inl e, st3)
                     | Inr ok \<Rightarrow> (Inr (), st3)))))"

definition updateLibrary ::
  "'a library_metadata_scheme \<Rightarrow> directory \<Rightarrow> storage \<Rightarrow> (error + unit) \<times> storage" where
  "updateLibrary newLibraryMetadata filesDirectory st =
     (case updateLibrary_try newLibraryMetadata filesDirectory st of
        (Inl e, st1) \<Rightarrow> rollback newLibraryMetadata e st1
      | (Inr u, st1) \<Rightarrow> (Inr (), st1))"

definition installFromDirectory ::
  "(installed_library \<Rightarrow> installed_library \<Rightarrow> int) \<Rightarrow> directory \<Rightarrow> bool \<Rightarrow> storage
     \<Rightarrow> (error + bool) \<times> storage" where
  "installFromDirectory cmp directory restr st =
     (case readJSON directory ''library.json'' of
        Inl e \<Rightarrow> (Inl e, st)
      | Inr newLibraryMetadata \<Rightarrow>
          if truthy (getId st newLibraryMetadata) then
            (case isPatchedLibrary cmp st newLibraryMetadata of
               Inl e \<Rightarrow> (Inl e, st)
             | Inr patched \<Rightarrow>
                 if patched then
                   (case updateLibrary newLibraryMetadata directory st of
                      (Inl e, st') \<Rightarrow> (Inl e, st')
                    | (Inr u, st') \<Rightarrow> (Inr True, st'))
                 else (Inr False, st))
          else
            (case installLibrary directory newLibraryMetadata restr st of
               (Inl e, st') \<Rightarrow> (Inl e, st')
             | (Inr info, st') \<Rightarrow> (Inr True, st')))"


section \<open>Cached library storage (CachedLibraryStorage.ts)\<close>

text \<open>
  The wrapped storage is any implementation of the storage interface: a record of its
  methods over a state \<open>'s\<close>. A write returns the new state beside its result, a read
  only a result. \<open>listAddons\<close> is an optional method. The methods that the cached
  storage hands through unchanged and that no cached key depends on
  (\<open>getAllDependentsCount\<close>, \<open>getDependentsCount\<close>, \<open>getFileStats\<close>,
  \<open>getFileStream\<close>) are left out. The text of a file and its parsed JSON are both a
  \<open>file_content\<close>. \<open>IAdditionalLibraryMetadata\<close> is its \<open>restricted\<close> flag.
\<close>

record 's ILibraryStorage =
  storage_addFile :: "library_name \<Rightarrow> string \<Rightarrow> read_stream \<Rightarrow> 's \<Rightarrow> (error + bool) \<times> 's"
  storage_addLibrary :: "library_metadata \<Rightarrow> bool \<Rightarrow> 's \<Rightarrow> (error + installed_library) \<times> 's"
  storage_clearFiles :: "library_name \<Rightarrow> 's \<Rightarrow> (error + unit) \<times> 's"
  storage_deleteLibrary :: "library_name \<Rightarrow> 's \<Rightarrow> (error + unit) \<times> 's"
  storage_fileExists :: "library_name \<Rightarrow> string \<Rightarrow> 's \<Rightarrow> error + bool"
  storage_getFileAsJson :: "library_name \<Rightarrow> string \<Rightarrow> 's \<Rightarrow> error + file_content"
  storage_getFileAsString :: "library_name \<Rightarrow> string \<Rightarrow> 's \<Rightarrow> error + file_content"
  storage_getInstalledLibraryNames :: "string option \<Rightarrow> 's \<Rightarrow> error + library_name list"
  storage_getLanguages :: "library_name \<Rightarrow> 's \<Rightarrow> error + string list"
  storage_getLibrary :: "library_name \<Rightarrow> 's \<Rightarrow> error + installed_library"
  storage_isInstalled :: "library_name \<Rightarrow> 's \<Rightarrow> error + bool"
  storage_listAddons :: "('s \<Rightarrow> error + library_metadata list) option"
  storage_listFiles :: "library_name \<Rightarrow> 's \<Rightarrow> error + string list"
  storage_updateAdditionalMetadata :: "library_name \<Rightarrow> bool option \<Rightarrow> 's \<Rightarrow> (error + bool) \<times> 's"
  storage_updateLibrary :: "library_metadata \<Rightarrow> 's \<Rightarrow> (error + installed_library) \<times> 's"

text \<open>
  The cache holds values of any type under string keys; what a cached read returns is
  the stored value, whatever operation stored it.
\<close>

datatype cache_value =
    VBool bool
  | VJson file_content
  | VText file_content
  | VNames "library_name list"
  | VLanguages "string list"
  | VLibrary installed_library
  | VAddons "library_metadata list"

text \<open>
  The state of a cached storage: the state of the wrapped storage, the cache, and the
  log of what the object has done to the two, in program order. \<open>WriteCall\<close> is the
  call of a writing method of the wrapped storage, \<open>WriteDone\<close> the point where the
  code has awaited its promise, \<open>CacheDel\<close> a call of \<open>cache.del\<close>.
\<close>

datatype event = WriteCall string | WriteDone string | CacheDel string

record 's cached =
  backing :: 's
  cache :: "string \<rightharpoonup> cache_value"
  events :: "event list"

definition ADDONS_CACHE_KEY :: string where
  "ADDONS_CACHE_KEY = ''addons''"

definition FILE_EXISTS_CACHE_KEY :: string where
  "FILE_EXISTS_CACHE_KEY = ''exists''"

definition INSTALLED_LIBRARY_NAMES_CACHE_KEY :: string where
  "INSTALLED_LIBRARY_NAMES_CACHE_KEY = ''installed-library-names''"

definition JSON_CACHE_KEY :: string where
  "JSON_CACHE_KEY = ''json''"

definition LANGUAGES_CACHE_KEY :: string where
  "LANGUAGES_CACHE_KEY = ''languages''"

definition LIBRARY_IS_INSTALLED_CACHE_KEY :: string where
  "LIBRARY_IS_INSTALLED_CACHE_KEY = ''is-installed''"

definition METADATA_CACHE_KEY :: string where
  "METADATA_CACHE_KEY = ''metadata''"

definition STRING_CACHE_KEY :: string where
  "STRING_CACHE_KEY = ''string''"

definition getCacheKeyForFile :: "'a library_name_scheme \<Rightarrow> string \<Rightarrow> string \<Rightarrow> string" where
  "getCacheKeyForFile library filename usage =
     toUberName library @ ''/'' @ filename @ ''-'' @ usage"

definition getCacheKeyForLibraryListByMachineName :: "string \<Rightarrow> string" where
  "getCacheKeyForLibraryListByMachineName mName =
     INSTALLED_LIBRARY_NAMES_CACHE_KEY @ ''-'' @ mName"

definition getCacheKeyForMetadata :: "'a library_name_scheme \<Rightarrow> string \<Rightarrow> string" where
  "getCacheKeyForMetadata library usage = toUberName library @ ''-'' @ usage"

text \<open>
  The cache primitives. \<open>wrap\<close> returns the stored value on a hit; on a miss it runs
  the producer on the wrapped storage and stores a result, not an error.
\<close>

definition cache_del :: "string \<Rightarrow> 's cached \<Rightarrow> 's cached" where
  "cache_del k c = c\<lparr>cache := (cache c)(k := None), events := events c @ [CacheDel k]\<rparr>"

definition cache_wrap ::
  "string \<Rightarrow> ('s \<Rightarrow> error + cache_value) \<Rightarrow> 's cached \<Rightarrow> (error + cache_value) \<times> 's cached" where
  "cache_wrap k producer c =
     (case cache c k of
        Some v \<Rightarrow> (Inr v, c)
      | None \<Rightarrow>
          (case producer (backing c) of
             Inl e \<Rightarrow> (Inl e, c)
           | Inr v \<Rightarrow> (Inr v, c\<lparr>cache := (cache c)(k \<mapsto> v)\<rparr>)))"

definition await_write ::
  "string \<Rightarrow> ('s \<Rightarrow> (error + 'r) \<times> 's) \<Rightarrow> 's cached \<Rightarrow> (error + 'r) \<times> 's cached" where
  "await_write name w c =
     (case w (backing c) of
        (r, s') \<Rightarrow> (r, c\<lparr>backing := s', events := events c @ [WriteCall name, WriteDone name]\<rparr>))"

definition tagged :: "('r \<Rightarrow> cache_value) \<Rightarrow> error + 'r \<Rightarrow> error + cache_value" where
  "tagged tag r = (case r of Inl e \<Rightarrow> Inl e | Inr v \<Rightarrow> Inr (tag v))"

definition deleteFileCache :: "'a library_name_scheme \<Rightarrow> string \<Rightarrow> 's cached \<Rightarrow> 's cached" where
  "deleteFileCache library filename c =
     cache_del (getCacheKeyForFile library filename FILE_EXISTS_CACHE_KEY)
       (cache_del (getCacheKeyForFile library filename STRING_CACHE_KEY)
          (cache_del (getCacheKeyForFile library filename JSON_CACHE_KEY) c))"

definition cached_addFile ::
  "'s ILibraryStorage \<Rightarrow> 'a library_name_scheme \<Rightarrow> string \<Rightarrow> read_stream \<Rightarrow> 's cached
     \<Rightarrow> (error + bool) \<times> 's cached" where
  "cached_addFile S library filename readStream c =
     (case await_write ''addFile'' (storage_addFile S (name_of library) filename readStream) c of
        (Inl e, c1) \<Rightarrow> (Inl e, c1)
      | (Inr result, c1) \<Rightarrow> (Inr result, deleteFileCache library filename c1))"

text \<open>
  \<open>addLibrary\<close> calls the wrapped storage without \<open>await\<close>: the four deletions run
  while its promise is pending, and the method's own promise settles with it at the
  \<open>return\<close>.
\<close>

definition cached_addLibrary ::
  "'s ILibraryStorage \<Rightarrow> 'a library_metadata_scheme \<Rightarrow> bool \<Rightarrow> 's cached
     \<Rightarrow> (error + installed_library) \<times> 's cached" where
  "cached_addLibrary S libraryData restr c =
     (let c0 = c\<lparr>events := events c @ [WriteCall ''addLibrary'']\<rparr>;
          c1 = cache_del INSTALLED_LIBRARY_NAMES_CACHE_KEY c0;
          c2 = cache_del ADDONS_CACHE_KEY c1;
          c3 = cache_del (getCacheKeyForMetadata libraryData LIBRARY_IS_INSTALLED_CACHE_KEY) c2;
          c4 = cache_del (getCacheKeyForLibraryListByMachineName (machineName libraryData)) c3
      in (case storage_addLibrary S (metadata_of libraryData) restr (backing c4) of
            (result, s') \<Rightarrow>
              (result, c4\<lparr>backing := s', events := events c4 @ [WriteDone ''addLibrary'']\<rparr>)))"

definition cached_clearCache :: "'s cached \<Rightarrow> 's cached" where
  "cached_clearCache c = c\<lparr>cache := Map.empty\<rparr>"

definition cached_clearFiles ::
  "'s ILibraryStorage \<Rightarrow> 'a library_name_scheme \<Rightarrow> 's cached \<Rightarrow> (error + unit) \<times> 's cached" where
  "cached_clearFiles S library c =
     (case storage_listFiles S (name_of library) (backing c) of
        Inl e \<Rightarrow> (Inl e, c)
      | Inr files \<Rightarrow>
          (case await_write ''clearFiles'' (storage_clearFiles S (name_of library)) c of
             (Inl e, c1) \<Rightarrow> (Inl e, c1)
           | (Inr u, c1) \<Rightarrow> (Inr (), fold (deleteFileCache library) files c1)))"

definition cached_deleteLibrary ::
  "'s ILibraryStorage \<Rightarrow> 'a library_name_scheme \<Rightarrow> 's cached \<Rightarrow> (error + unit) \<times> 's cached" where
  "cached_deleteLibrary S library c =
     (case storage_listFiles S (name_of library) (backing c) of
        Inl e \<Rightarrow> (Inl e, c)
      | Inr files \<Rightarrow>
          (case await_write ''deleteLibrary'' (storage_deleteLibrary S (name_of library)) c of
             (Inl e, c1) \<Rightarrow> (Inl e, c1)
           | (Inr u, c1) \<Rightarrow>
               (Inr (),
                cache_del ADDONS_CACHE_KEY
                  (cache_del (getCacheKeyForLibraryListByMachineName (machineName library))
                     (cache_del INSTALLED_LIBRARY_NAMES_CACHE_KEY
                        (cache_del (getCacheKeyForMetadata library LIBRARY_IS_INSTALLED_CACHE_KEY)
                           (cache_del (getCacheKeyForMetadata library LANGUAGES_CACHE_KEY)
                              (cache_del (getCacheKeyForMetadata library METADATA_CACHE_KEY)
                                 (fold (deleteFileCache library) files c1)))))))))"

definition cached_fileExists ::
  "'s ILibraryStorage \<Rightarrow> 'a library_name_scheme \<Rightarrow> string \<Rightarrow> 's cached
     \<Rightarrow> (error + cache_value) \<times> 's cached" where
  "cached_fileExists S library filename c =
     cache_wrap (getCacheKeyForFile library filename FILE_EXISTS_CACHE_KEY)
       (\<lambda>s. tagged VBool (storage_fileExists S (name_of library) filename s)) c"

definition cached_getFileAsJson ::
  "'s ILibraryStorage \<Rightarrow> 'a library_name_scheme \<Rightarrow> string \<Rightarrow> 's cached
     \<Rightarrow> (error + cache_value) \<times> 's cached" where
  "cached_getFileAsJson S library file c =
     cache_wrap (getCacheKeyForFile library file JSON_CACHE_KEY)
       (\<lambda>s. tagged VJson (storage_getFileAsJson S (name_of library) file s)) c"

definition cached_getFileAsString ::
  "'s ILibraryStorage \<Rightarrow> 'a library_name_scheme \<Rightarrow> string \<Rightarrow> 's cached
     \<Rightarrow> (error + cache_value) \<times> 's cached" where
  "cached_getFileAsString S library file c =
     cache_wrap (getCacheKeyForFile library file STRING_CACHE_KEY)
       (\<lambda>s. tagged VText (storage_getFileAsString S (name_of library) file s)) c"

definition cached_getInstalledLibraryNames ::
  "'s ILibraryStorage \<Rightarrow> string option \<Rightarrow> 's cached \<Rightarrow> (error + cache_value) \<times> 's cached" where
  "cached_getInstalledLibraryNames S mName c =
     (case mName of
        Some n \<Rightarrow>
          if n \<noteq> [] then
            cache_wrap (getCacheKeyForLibraryListByMachineName n)
              (\<lambda>s. tagged VNames (storage_getInstalledLibraryNames S (Some n) s)) c
          else
            cache_wrap INSTALLED_LIBRARY_NAMES_CACHE_KEY
              (\<lambda>s. tagged VNames (storage_getInstalledLibraryNames S None s)) c
      | None \<Rightarrow>
          cache_wrap INSTALLED_LIBRARY_NAMES_CACHE_KEY
            (\<lambda>s. tagged VNames (storage_getInstalledLibraryNames S None s)) c)"

definition cached_getLanguages ::
  "'s ILibraryStorage \<Rightarrow> 'a library_name_scheme \<Rightarrow> 's cached \<Rightarrow> (error + cache_value) \<times> 's cached" where
  "cached_getLanguages S library c =
     cache_wrap (getCacheKeyForMetadata library LANGUAGES_CACHE_KEY)
       (\<lambda>s. tagged VLanguages (storage_getLanguages S (name_of library) s)) c"

definition cached_getLibrary ::
  "'s ILibraryStorage \<Rightarrow> 'a library_name_scheme \<Rightarrow> 's cached \<Rightarrow> (error + cache_value) \<times> 's cached" where
  "cached_getLibrary S library c =
     cache_wrap (getCacheKeyForMetadata library METADATA_CACHE_KEY)
       (\<lambda>s. tagged VLibrary (storage_getLibrary S (name_of library) s)) c"

definition cached_isInstalled ::
  "'s ILibraryStorage \<Rightarrow> 'a library_name_scheme \<Rightarrow> 's cached \<Rightarrow> (error + cache_value) \<times> 's cached" where
  "cached_isInstalled S library c =
     cache_wrap (getCacheKeyForMetadata library LIBRARY_IS_INSTALLED_CACHE_KEY)
       (\<lambda>s. tagged VBool (storage_isInstalled S (name_of library) s)) c"

definition cached_listAddons ::
  "'s ILibraryStorage \<Rightarrow> 's cached \<Rightarrow> (error + cache_value) \<times> 's cached" where
  "cached_listAddons S c =
     (case storage_listAddons S of
        Some listAddons \<Rightarrow> cache_wrap ADDONS_CACHE_KEY (\<lambda>s. tagged VAddons (listAddons s)) c
      | None \<Rightarrow> (Inr (VAddons []), c))"

definition cached_listFiles ::
  "'s ILibraryStorage \<Rightarrow> 'a library_name_scheme \<Rightarrow> 's cached \<Rightarrow> error + string list" where
  "cached_listFiles S library c = storage_listFiles S (name_of library) (backing c)"

definition cached_updateAdditionalMetadata ::
  "'s ILibraryStorage \<Rightarrow> 'a library_name_scheme \<Rightarrow> bool option \<Rightarrow> 's cached
     \<Rightarrow> (error + bool) \<times> 's cached" where
  "cached_updateAdditionalMetadata S library additionalMetadata c =
     (case await_write ''updateAdditionalMetadata''
             (storage_updateAdditionalMetadata S (name_of library) additionalMetadata) c of
        (Inl e, c1) \<Rightarrow> (Inl e, c1)
      | (Inr result, c1) \<Rightarrow>
          (Inr result, cache_del (getCacheKeyForMetadata library METADATA_CACHE_KEY) c1))"

definition cached_updateLibrary ::
  "'s ILibraryStorage \<Rightarrow> 'a library_metadata_scheme \<Rightarrow> 's cached
     \<Rightarrow> (error + installed_library) \<times> 's cached" where
  "cached_updateLibrary S libraryMetadata c =
     (case await_write ''updateLibrary'' (storage_updateLibrary S (metadata_of libraryMetadata)) c of
        (Inl e, c1) \<Rightarrow> (Inl e, c1)
      | (Inr result, c1) \<Rightarrow>
          (Inr result,
           cache_del (getCacheKeyForLibraryListByMachineName (machineName libraryMetadata))
             (cache_del ADDONS_CACHE_KEY
                (cache_del INSTALLED_LIBRARY_NAMES_CACHE_KEY
                   (cache_del (getCacheKeyForMetadata libraryMetadata METADATA_CACHE_KEY) c1)))))"

text \<open>
  The in-memory storage as an implementation of the interface. The languages of a
  library are the codes \<open>c\<close> of its files \<open>language/c.json\<close>. It has no
  \<open>listAddons\<close>.
\<close>

definition language_code :: "string \<Rightarrow> string option" where
  "language_code f =
     (let r = drop 9 f
      in if take 9 f = ''language/'' \<and> 5 < length r \<and> drop (length r - 5) r = ''.json''
            \<and> CHR ''/'' \<notin> set r
         then Some (take (length r - 5) r) else None)"

definition mem_getLanguages :: "storage \<Rightarrow> 'a library_name_scheme \<Rightarrow> error + string list" where
  "mem_getLanguages st l =
     (case lookup st l of
        None \<Rightarrow> Inl (not_installed l)
      | Some e \<Rightarrow> Inr (List.map_filter language_code (map fst (lib_files e))))"

definition mem_getLibrary :: "storage \<Rightarrow> 'a library_name_scheme \<Rightarrow> error + installed_library" where
  "mem_getLibrary st l =
     (case lookup st l of
        None \<Rightarrow> Inl (not_installed l)
      | Some e \<Rightarrow> Inr (library_metadata.extend (lib_metadata e)
                        \<lparr>libraryId = Some (lib_id e), restricted = lib_restricted e\<rparr>))"

definition mem_updateAdditionalMetadata ::
  "'a library_name_scheme \<Rightarrow> bool option \<Rightarrow> storage \<Rightarrow> (error + bool) \<times> storage" where
  "mem_updateAdditionalMetadata l a st =
     (case lookup st l of
        None \<Rightarrow> (Inl (not_installed l), st)
      | Some e \<Rightarrow>
          (case a of
             None \<Rightarrow> (Inr False, st)
           | Some r \<Rightarrow>
               if r = lib_restricted e then (Inr False, st)
               else (Inr True, put l (e\<lparr>lib_restricted := r\<rparr>) st)))"

definition mem_storage :: "storage ILibraryStorage" where
  "mem_storage =
     \<lparr>storage_addFile = mem_addLibraryFile,
      storage_addLibrary = mem_installLibrary,
      storage_clearFiles = mem_clearLibraryFiles,
      storage_deleteLibrary = (\<lambda>l st. case mem_removeLibrary l st of
                                  (Inl e, st') \<Rightarrow> (Inl e, st')
                                | (Inr ok, st') \<Rightarrow> (Inr (), st')),
      storage_fileExists = (\<lambda>l f st. Inr (mem_fileExists st l f)),
      storage_getFileAsJson = (\<lambda>l f st. mem_getFileStream st l f),
      storage_getFileAsString = (\<lambda>l f st. mem_getFileStream st l f),
      storage_getInstalledLibraryNames =
        (\<lambda>n st. Inr (mem_getInstalled st (case n of None \<Rightarrow> [] | Some m \<Rightarrow> [m]))),
      storage_getLanguages = (\<lambda>l st. mem_getLanguages st l),
      storage_getLibrary = (\<lambda>l st. mem_getLibrary st l),
      storage_isInstalled = (\<lambda>l st. Inr (lookup st l \<noteq> None)),
      storage_listAddons = None,
      storage_listFiles = (\<lambda>l st. mem_listFiles st l),
      storage_updateAdditionalMetadata = mem_updateAdditionalMetadata,
      storage_updateLibrary = mem_updateLibrary\<rparr>"


section \<open>Package archives (PackageManager)\<close>

text \<open>
  An archive is the list of its entries, in the order \<open>walkEntries\<close> visits them.
  The local disk is the list of its files under their absolute paths; directories are
  the prefixes of those paths.
\<close>

record zip_entry =
  fileName :: string
  uncompressedSize :: nat
  fileData :: file_content

type_synonym archive = "zip_entry list"

type_synonym disk = "(string \<times> file_content) list"

text \<open>
  Paths as Node's \<open>path\<close> module treats them on POSIX: \<open>normalize\<close> drops empty and
  \<open>.\<close> segments and resolves \<open>..\<close> against the segment before it; a \<open>..\<close> with
  nothing before it stays in a relative path and is dropped at the root of an absolute
  one.
\<close>

definition normalize_step :: "bool \<Rightarrow> string list \<Rightarrow> string \<Rightarrow> string list" where
  "normalize_step absolute stack seg =
     (if seg = [] \<or> seg = ''.'' then stack
      else if seg = ''..'' then
        (if stack \<noteq> [] \<and> last stack \<noteq> ''..'' then butlast stack
         else if absolute then stack
         else stack @ [''..''])
      else stack @ [seg])"

definition is_absolute :: "string \<Rightarrow> bool" where
  "is_absolute p = (case p of [] \<Rightarrow> False | c # cs \<Rightarrow> c = CHR ''/'')"

definition normalized_segments :: "string \<Rightarrow> string list" where
  "normalized_segments p = foldl (normalize_step (is_absolute p)) [] (split_on (CHR ''/'') p)"

definition path_normalize :: "string \<Rightarrow> string" where
  "path_normalize p =
     (if is_absolute p then ''/'' @ join ''/'' (normalized_segments p)
      else if normalized_segments p = [] then ''.''
      else join ''/'' (normalized_segments p))"

definition path_join :: "string \<Rightarrow> string \<Rightarrow> string" where
  "path_join a b = path_normalize (a @ ''/'' @ b)"

definition path_basename :: "string \<Rightarrow> string" where
  "path_basename p =
     (case filter (\<lambda>s. s \<noteq> []) (split_on (CHR ''/'') p) of
        [] \<Rightarrow> []
      | s # segs \<Rightarrow> last (s # segs))"

definition startsWith :: "string \<Rightarrow> string \<Rightarrow> bool" where
  "startsWith s pre = (take (length pre) s = pre)"

text \<open>
  Modelled from the spec: the package validator (\<open>PackageValidator.validatePackage\<close>,
  section 4.1 of the specification), which is not among the source files. Its first
  step walks the entries and stops at the first one whose normalized path escapes the
  extraction root or whose size exceeds the per-file ceiling, then compares the total
  size with the per-archive ceiling; each is a structural error. The later steps
  (partition, content and library checks) are the parameter \<open>rules\<close>, which returns
  the accumulated issues; a non-empty set is a validation error.
\<close>

record validator_limits =
  maxFileSize :: nat
  maxTotalSize :: nat

definition escapes_root :: "string \<Rightarrow> bool" where
  "escapes_root p =
     (is_absolute p \<or>
      (case normalized_segments p of [] \<Rightarrow> False | s # segs \<Rightarrow> s = ''..''))"

fun structural_check :: "validator_limits \<Rightarrow> nat \<Rightarrow> archive \<Rightarrow> error option" where
  "structural_check lim sizes [] =
     (if maxTotalSize lim < sizes
      then Some (StructuralError ''The archive exceeds the total size limit.'')
      else None)"
| "structural_check lim sizes (e # es) =
     (if escapes_root (fileName e)
      then Some (StructuralError (''The entry '' @ fileName e @ '' escapes the extraction root.''))
      else if maxFileSize lim < uncompressedSize e
      then Some (StructuralError (''The entry '' @ fileName e @ '' exceeds the file size limit.''))
      else structural_check lim (sizes + uncompressedSize e) es)"

definition validatePackage ::
  "validator_limits \<Rightarrow> (archive \<Rightarrow> bool \<Rightarrow> bool \<Rightarrow> string list) \<Rightarrow> archive \<Rightarrow> bool \<Rightarrow> bool
     \<Rightarrow> error + unit" where
  "validatePackage lim rules package checkLibraries checkContent =
     (case structural_check lim 0 package of
        Some e \<Rightarrow> Inl e
      | None \<Rightarrow>
          (case rules package checkLibraries checkContent of
             [] \<Rightarrow> Inr ()
           | i # issues \<Rightarrow> Inl (ValidationError (join [CHR 0x0A] (i # issues)))))"

text \<open>
  \<open>extractPackage\<close>: the entries are visited one after the other; a selected entry
  is written to \<open>path.join(directoryPath, entry.fileName)\<close>. Writing the entry of a
  directory (a name that ends with a slash) fails and ends the walk.
\<close>

record extract_options =
  includeLibraries :: bool
  includeContent :: bool
  includeMetadata :: bool

definition entry_selected :: "extract_options \<Rightarrow> zip_entry \<Rightarrow> bool" where
  "entry_selected opts entry =
     (let basename = path_basename (fileName entry)
      in \<not> startsWith basename ''.'' \<and> \<not> startsWith basename ''_'' \<and>
         ((includeContent opts \<and> startsWith (fileName entry) ''content/'') \<or>
          (includeLibraries opts \<and> CHR ''/'' \<in> set (fileName entry)
             \<and> \<not> startsWith (fileName entry) ''content/'') \<or>
          (includeMetadata opts \<and> fileName entry = ''h5p.json'')))"

fun extractPackage :: "archive \<Rightarrow> string \<Rightarrow> extract_options \<Rightarrow> disk \<Rightarrow> (error + unit) \<times> disk" where
  "extractPackage [] directoryPath opts d = (Inr (), d)"
| "extractPackage (entry # entries) directoryPath opts d =
     (if entry_selected opts entry then
        (if fileName entry \<noteq> [] \<and> last (fileName entry) = CHR ''/''
         then (Inl (Error ''EISDIR: illegal operation on a directory, open''), d)
         else extractPackage entries directoryPath opts
                (AList.update (path_join directoryPath (fileName entry)) (fileData entry) d))
      else extractPackage entries directoryPath opts d)"

text \<open>
  What the manager reads back from the disk: the names directly below a directory,
  and a directory as \<open>installFromDirectory\<close> sees it (its files below it, with the
  sub-directories their paths go through).
\<close>

definition below :: "string \<Rightarrow> string \<Rightarrow> string option" where
  "below dirPath p =
     (if startsWith p (dirPath @ ''/'') \<and> length (dirPath @ ''/'') < length p
      then Some (drop (length (dirPath @ ''/'')) p) else None)"

definition readdir :: "disk \<Rightarrow> string \<Rightarrow> string list" where
  "readdir d dirPath =
     remdups (List.map_filter
       (\<lambda>(p, c). map_option (\<lambda>r. hd (split_on (CHR ''/'') r)) (below dirPath p)) d)"

fun ancestors :: "string list \<Rightarrow> string list" where
  "ancestors [] = []"
| "ancestors [s] = []"
| "ancestors (s # t # segs) = s # map (\<lambda>a. s @ ''/'' @ a) (ancestors (t # segs))"

definition directory_at :: "disk \<Rightarrow> string \<Rightarrow> directory" where
  "directory_at d dirPath =
     (let files = List.map_filter (\<lambda>(p, c). map_option (\<lambda>r. (r, c)) (below dirPath p)) d
      in map (\<lambda>(r, c). (r, File c)) files
         @ map (\<lambda>f. (f, Folder))
             (remdups (concat (map (\<lambda>(r, c). ancestors (split_on (CHR ''/'') r)) files))))"

definition remove_tree :: "string \<Rightarrow> disk \<Rightarrow> disk" where
  "remove_tree dirPath d = filter (\<lambda>(p, c). p \<noteq> dirPath \<and> below dirPath p = None) d"

text \<open>
  \<open>processPackage\<close>. The world it works on is the disk, the library storage behind the
  library manager and the state of the content manager. Its surroundings are the
  validator's limits and later rules, the comparison of installed libraries, the path of
  the temporary directory that \<open>dir()\<close> creates, and the content manager's
  \<open>copyContentFromDirectory\<close> (absent when the package manager was built without a
  content manager). The installs of the library directories are started together; each
  is run here, and the first error is the result.
\<close>

record 'c world =
  w_disk :: disk
  w_libraries :: storage
  w_content :: 'c

record 'c surroundings =
  limits :: validator_limits
  rules :: "archive \<Rightarrow> bool \<Rightarrow> bool \<Rightarrow> string list"
  compare :: "installed_library \<Rightarrow> installed_library \<Rightarrow> int"
  tempDirPath :: string
  copyContentFromDirectory :: "(disk \<Rightarrow> string \<Rightarrow> 'c \<Rightarrow> (error + nat) \<times> 'c) option"

record process_options =
  installLibraries :: bool
  copyContent :: bool

definition install_one ::
  "'c surroundings \<Rightarrow> disk \<Rightarrow> string \<Rightarrow> (error option \<times> storage) \<Rightarrow> (error option \<times> storage)" where
  "install_one env d dirEntry acc =
     (case acc of (err, st) \<Rightarrow>
        (case installFromDirectory (compare env)
                (directory_at d (path_join (tempDirPath env) dirEntry)) False st of
           (Inl e, st') \<Rightarrow> ((case err of None \<Rightarrow> Some e | Some e0 \<Rightarrow> Some e0), st')
         | (Inr ok, st') \<Rightarrow> (err, st')))"

definition processPackage_try ::
  "'c surroundings \<Rightarrow> archive \<Rightarrow> process_options \<Rightarrow> 'c world \<Rightarrow> (error + nat option) \<times> 'c world" where
  "processPackage_try env package opts w =
     (case extractPackage package (tempDirPath env)
             \<lparr>includeLibraries = installLibraries opts, includeContent = copyContent opts,
              includeMetadata = copyContent opts\<rparr> (w_disk w) of
        (Inl e, d1) \<Rightarrow> (Inl e, w\<lparr>w_disk := d1\<rparr>)
      | (Inr u, d1) \<Rightarrow>
          (let dirContent = readdir d1 (tempDirPath env);
               installed =
                 (if installLibraries opts
                  then fold (install_one env d1)
                         (filter (\<lambda>dirEntry. dirEntry \<noteq> ''h5p.json'' \<and> dirEntry \<noteq> ''content'')
                            dirContent)
                         (None, w_libraries w)
                  else (None, w_libraries w))
           in (case installed of
                 (Some e, st1) \<Rightarrow> (Inl e, w\<lparr>w_disk := d1, w_libraries := st1\<rparr>)
               | (None, st1) \<Rightarrow>
                   if copyContent opts then
                     (case copyContentFromDirectory env of
                        None \<Rightarrow>
                          (Inl (Error ''PackageManager was initialized with a ContentManager, but you want to copy content from a package. Pass a ContentManager object to the the constructor!''),
                           w\<lparr>w_disk := d1, w_libraries := st1\<rparr>)
                      | Some copy \<Rightarrow>
                          (case copy d1 (tempDirPath env) (w_content w) of
                             (Inl e, c1) \<Rightarrow>
                               (Inl e, w\<lparr>w_disk := d1, w_libraries := st1, w_content := c1\<rparr>)
                           | (Inr newContentId, c1) \<Rightarrow>
                               (Inr (Some newContentId),
                                w\<lparr>w_disk := d1, w_libraries := st1, w_content := c1\<rparr>)))
                   else (Inr None, w\<lparr>w_disk := d1, w_libraries := st1\<rparr>))))"

definition rethrow :: "error \<Rightarrow> error" where
  "rethrow e = (case e of ValidationError m \<Rightarrow> H5pError m | _ \<Rightarrow> e)"

definition processPackage ::
  "'c surroundings \<Rightarrow> archive \<Rightarrow> process_options \<Rightarrow> 'c world \<Rightarrow> (error + nat option) \<times> 'c world" where
  "processPackage env package opts w =
     (case validatePackage (limits env) (rules env) package False True of
        Inl e \<Rightarrow> (Inl (rethrow e), w)
      | Inr u \<Rightarrow>
          (case processPackage_try env package opts w of
             (r, w1) \<Rightarrow>
               ((case r of Inl e \<Rightarrow> Inl (rethrow e) | Inr newContentId \<Rightarrow> Inr newContentId),
                w1\<lparr>w_disk := remove_tree (tempDirPath env) (w_disk w1)\<rparr>)))"

definition installLibrariesFromPackage ::
  "'c surroundings \<Rightarrow> archive \<Rightarrow> 'c world \<Rightarrow> (error + nat option) \<times> 'c world" where
  "installLibrariesFromPackage env package w =
     processPackage env package \<lparr>installLibraries = True, copyContent = False\<rparr> w"


section \<open>Vocabulary of the statements\<close>

text \<open>
  The files of an asset list that the storage does not hold, and what it means for an
  error to list a file: its message contains the line \<open><file> is missing.\<close>
\<close>

definition missing_files :: "storage \<Rightarrow> 'a library_name_scheme \<Rightarrow> string list option \<Rightarrow> string list" where
  "missing_files st library files =
     (case files of
        None \<Rightarrow> []
      | Some fs \<Rightarrow> filter (\<lambda>file. \<not> mem_fileExists st library file) fs)"

definition reports_missing :: "error \<Rightarrow> string \<Rightarrow> bool" where
  "reports_missing err file = sublist (file @ '' is missing.'') (message err)"

text \<open>
  The cached read operations, as they concern one library: the three reads of one of
  its files, its metadata, its languages, its installed flag, the list of the installed
  versions of its machine name, and the two global lists. Each with the key its method
  computes.
\<close>

datatype cached_operation =
    FileAsJson string
  | FileAsString string
  | FileExists string
  | GetLibrary
  | GetLanguages
  | IsInstalled
  | InstalledNamesOfMachineName
  | InstalledNames
  | ListAddons

fun operation_key :: "'a library_name_scheme \<Rightarrow> cached_operation \<Rightarrow> string" where
  "operation_key l (FileAsJson f) = getCacheKeyForFile l f JSON_CACHE_KEY"
| "operation_key l (FileAsString f) = getCacheKeyForFile l f STRING_CACHE_KEY"
| "operation_key l (FileExists f) = getCacheKeyForFile l f FILE_EXISTS_CACHE_KEY"
| "operation_key l GetLibrary = getCacheKeyForMetadata l METADATA_CACHE_KEY"
| "operation_key l GetLanguages = getCacheKeyForMetadata l LANGUAGES_CACHE_KEY"
| "operation_key l IsInstalled = getCacheKeyForMetadata l LIBRARY_IS_INSTALLED_CACHE_KEY"
| "operation_key l InstalledNamesOfMachineName =
     getCacheKeyForLibraryListByMachineName (machineName l)"
| "operation_key l InstalledNames = INSTALLED_LIBRARY_NAMES_CACHE_KEY"
| "operation_key l ListAddons = ADDONS_CACHE_KEY"

text \<open>
  In the log of one write: no \<open>cache.del\<close> before the write's promise was awaited.
\<close>

fun invalidation_after_write :: "event list \<Rightarrow> bool" where
  "invalidation_after_write [] = True"
| "invalidation_after_write (WriteDone n # es) = True"
| "invalidation_after_write (CacheDel k # es) = False"
| "invalidation_after_write (WriteCall n # es) = invalidation_after_write es"


section \<open>Example inputs\<close>

text \<open>
  The library \<open>H5P.Test-1.0\<close> at patch 1 and patch 2, directories that hold it
  (complete, and without the declared \<open>main.js\<close>), the storage before, during and
  after its installation, a comparison of installed libraries by version, and a package
  with and without an entry that leaves the extraction root.
\<close>

definition ex_metadata :: library_metadata where
  "ex_metadata = \<lparr>machineName = ''H5P.Test'', majorVersion = 1, minorVersion = 0,
     patchVersion = 1, runnable = True, title = ''Test'',
     preloadedJs = Some [''main.js''], preloadedCss = Some [''style.css'']\<rparr>"

definition ex_metadata_patch2 :: library_metadata where
  "ex_metadata_patch2 = ex_metadata\<lparr>patchVersion := 2\<rparr>"

definition ex_dir :: directory where
  "ex_dir = [(''library.json'', File (Descriptor ex_metadata)),
             (''main.js'', File (Bytes ''js'')),
             (''style.css'', File (Bytes ''css'')),
             (''LICENSE'', File (Bytes ''MIT''))]"

definition ex_dir_missing_asset :: directory where
  "ex_dir_missing_asset = [(''library.json'', File (Descriptor ex_metadata)),
             (''style.css'', File (Bytes ''css''))]"

definition ex_dir_patch2_missing_asset :: directory where
  "ex_dir_patch2_missing_asset = [(''library.json'', File (Descriptor ex_metadata_patch2)),
             (''style.css'', File (Bytes ''css''))]"

definition ex_empty :: storage where
  "ex_empty = \<lparr>stored = [], next_id = 1, unwritable = []\<rparr>"

definition ex_info :: installed_library where
  "ex_info = library_metadata.extend ex_metadata \<lparr>libraryId = Some 1, restricted = False\<rparr>"

definition ex_reserved :: storage where
  "ex_reserved = \<lparr>stored = [((''H5P.Test'', 1, 0),
       \<lparr>lib_id = 1, lib_restricted = False, lib_metadata = ex_metadata, lib_files = []\<rparr>)],
     next_id = 2, unwritable = []\<rparr>"

definition ex_copied :: storage where
  "ex_copied = \<lparr>stored = [((''H5P.Test'', 1, 0),
       \<lparr>lib_id = 1, lib_restricted = False, lib_metadata = ex_metadata,
        lib_files = [(''style.css'', Bytes ''css'')]\<rparr>)],
     next_id = 2, unwritable = []\<rparr>"

definition ex_installed :: storage where
  "ex_installed = \<lparr>stored = [((''H5P.Test'', 1, 0),
       \<lparr>lib_id = 1, lib_restricted = False, lib_metadata = ex_metadata,
        lib_files = [(''main.js'', Bytes ''js''), (''style.css'', Bytes ''css'')]\<rparr>)],
     next_id = 2, unwritable = []\<rparr>"

definition ex_updated_empty :: storage where
  "ex_updated_empty = \<lparr>stored = [((''H5P.Test'', 1, 0),
       \<lparr>lib_id = 1, lib_restricted = False, lib_metadata = ex_metadata_patch2,
        lib_files = [(''style.css'', Bytes ''css'')]\<rparr>)],
     next_id = 2, unwritable = []\<rparr>"

definition ex_missing_error :: error where
  "ex_missing_error = Error (''Error(s) in library H5P.Test-1.0:'' @ [CHR 0x0A] @ ''main.js is missing.'')"

definition ex_compare :: "installed_library \<Rightarrow> installed_library \<Rightarrow> int" where
  "ex_compare a b =
     (if majorVersion a \<noteq> majorVersion b then int (majorVersion a) - int (majorVersion b)
      else if minorVersion a \<noteq> minorVersion b then int (minorVersion a) - int (minorVersion b)
      else int (patchVersion a) - int (patchVersion b))"



definition ex_cached :: "storage cached" where
  "ex_cached = \<lparr>backing = ex_installed, cache = Map.empty, events = []\<rparr>"

definition ex_cached_empty :: "storage cached" where
  "ex_cached_empty = \<lparr>backing = ex_empty, cache = Map.empty, events = []\<rparr>"

definition ex_cached_en :: "storage cached" where
  "ex_cached_en = \<lparr>backing = \<lparr>stored = [((''H5P.Test'', 1, 0),
       \<lparr>lib_id = 1, lib_restricted = False, lib_metadata = ex_metadata,
        lib_files = [(''main.js'', Bytes ''js''), (''style.css'', Bytes ''css''),
                     (''language/en.json'', Bytes ''{}'')]\<rparr>)],
     next_id = 2, unwritable = []\<rparr>, cache = Map.empty, events = []\<rparr>"

definition ex_package :: archive where
  "ex_package =
     [\<lparr>fileName = ''H5P.Test-1.0/library.json'', uncompressedSize = 120,
       fileData = Descriptor ex_metadata\<rparr>,
      \<lparr>fileName = ''H5P.Test-1.0/main.js'', uncompressedSize = 2, fileData = Bytes ''js''\<rparr>,
      \<lparr>fileName = ''H5P.Test-1.0/style.css'', uncompressedSize = 3, fileData = Bytes ''css''\<rparr>]"

definition ex_evil_package :: archive where
  "ex_evil_package = ex_package @
     [\<lparr>fileName = ''../../evil.sh'', uncompressedSize = 4, fileData = Bytes ''evil''\<rparr>]"

definition ex_surroundings :: "unit surroundings" where
  "ex_surroundings =
     \<lparr>limits = \<lparr>maxFileSize = 1000, maxTotalSize = 10000\<rparr>,
      rules = (\<lambda>package checkLibraries checkContent. []),
      compare = ex_compare,
      tempDirPath = ''/tmp/h5p-1'',
      copyContentFromDirectory = None\<rparr>"

definition ex_world :: "unit world" where
  "ex_world = \<lparr>w_disk = [(''/etc/passwd'', Bytes ''root'')], w_libraries = ex_empty, w_content = ()\<rparr>"


section \<open>Facts about uber names\<close>






















section \<open>Facts about the storage\<close>

lemma map_of_put:
  "map_of (stored (put l e st)) k = (if key_of l = k then Some e else map_of (stored st) k)"
  by (auto simp: put_def update_conv')

lemma lookup_put:
  "lookup (put l e st) x = (if key_of l = key_of x then Some e else lookup st x)"
  by (auto simp: lookup_def put_def update_conv')

lemma lookup_next_id [simp]: "lookup (st\<lparr>next_id := n\<rparr>) x = lookup st x"
  by (simp add: lookup_def)

lemma key_of_metadata_of [simp]: "key_of (metadata_of m) = key_of m"
  by (simp add: key_of_def metadata_of_def)

lemma key_of_extend [simp]: "key_of (library_metadata.extend m x) = key_of m"
  by (simp add: key_of_def library_metadata.extend_def)

lemma mem_installLibrary_installed:
  "mem_installLibrary m r st = (Inr info, st1) \<Longrightarrow> lookup st1 m \<noteq> None"
  by (auto simp: mem_installLibrary_def lookup_put split: option.splits)

lemma mem_addLibraryFile_installed:
  "(lookup (snd (mem_addLibraryFile l f s st)) x = None) = (lookup st x = None)"
  by (auto simp: mem_addLibraryFile_def map_of_put lookup_def
      split: option.splits read_stream.splits)

lemma copy_one_installed:
  "(lookup (snd (copy_one l f acc)) x = None) = (lookup (snd acc) x = None)"
proof -
  obtain p en where f: "f = (p, en)" by (cases f)
  obtain err st where acc: "acc = (err, st)" by (cases acc)
  show ?thesis
    using mem_addLibraryFile_installed [of l p "createReadStream en" st x]
    by (auto simp: copy_one_def f acc split: prod.splits sum.splits)
qed

lemma fold_copy_one_installed:
  "(lookup (snd (fold (copy_one l) fs acc)) x = None) = (lookup (snd acc) x = None)"
  by (induction fs arbitrary: acc) (simp_all add: copy_one_installed)

lemma copyLibraryFiles_installed:
  "(lookup (snd (copyLibraryFiles dir l st)) x = None) = (lookup st x = None)"
  using fold_copy_one_installed [of l "globPromise dir" "(None, st)" x]
  by (auto simp: copyLibraryFiles_def split: prod.splits option.splits)

lemma mem_clearLibraryFiles_installed:
  "(lookup (snd (mem_clearLibraryFiles l st)) x = None) = (lookup st x = None)"
  by (auto simp: mem_clearLibraryFiles_def map_of_put lookup_def split: option.splits)

lemma mem_updateLibrary_installed:
  "(lookup (snd (mem_updateLibrary m st)) x = None) = (lookup st x = None)"
  by (auto simp: mem_updateLibrary_def map_of_put lookup_def split: option.splits)

lemma installLibrary_try_installed:
  "(lookup (snd (installLibrary_try dir info m st)) x = None) = (lookup st x = None)"
  using copyLibraryFiles_installed [of dir info st x]
  by (auto simp: installLibrary_try_def split: prod.splits sum.splits)

lemma updateLibrary_try_installed:
  "(lookup (snd (updateLibrary_try m dir st)) x = None) = (lookup st x = None)"
proof -
  let ?s1 = "snd (mem_updateLibrary m st)"
  let ?s2 = "snd (mem_clearLibraryFiles m ?s1)"
  let ?s3 = "snd (copyLibraryFiles dir m ?s2)"
  have "snd (updateLibrary_try m dir st) \<in> {?s1, ?s2, ?s3}"
    by (auto simp: updateLibrary_try_def split: prod.splits sum.splits)
  then show ?thesis
    using mem_updateLibrary_installed [of m st x] mem_clearLibraryFiles_installed [of m ?s1 x]
      copyLibraryFiles_installed [of dir m ?s2 x]
    by auto
qed

lemma rollback_removes:
  "getId (snd (rollback l e st)) l = None"
  by (auto simp: rollback_def mem_removeLibrary_def getId_def mem_getId_def lookup_def
      delete_conv' split: option.splits)

lemma rollback_error:
  "fst (rollback l e st) = Inl (if lookup st l = None then not_installed l else e)"
  by (auto simp: rollback_def mem_removeLibrary_def split: option.splits)

lemma updateLibrary_try_absent:
  "lookup st m = None \<Longrightarrow> updateLibrary_try m dir st = (Inl (not_installed m), st)"
  by (simp add: updateLibrary_try_def mem_updateLibrary_def)


section \<open>Facts about the manager's queries\<close>














lemma truthy_installed: "truthy (getId st m) \<Longrightarrow> \<exists>e. lookup st m = Some e"
  by (auto simp: truthy_def getId_def mem_getId_def split: option.splits)

section \<open>Facts about the consistency check and the copy\<close>

lemma sublist_join: "x \<in> set xs \<Longrightarrow> sublist x (join sep xs)"
proof (induction sep xs rule: join.induct)
  case (1 sep)
  then show ?case by simp
next
  case (2 sep y)
  then show ?case by simp
next
  case (3 sep y z zs)
  show ?case
  proof (cases "x = y")
    case True
    then show ?thesis by (simp add: sublist_append_rightI)
  next
    case False
    then have "sublist x (join sep (z # zs))" using 3 by simp
    then have "sublist x (y @ sep @ join sep (z # zs))"
      by (simp add: sublist_append)
    then show ?thesis by simp
  qed
qed

lemma checkFiles_error:
  "checkFiles st l fs = Inl err \<Longrightarrow>
     missing_files st l (Some fs) \<noteq> []
     \<and> message err = ''Error(s) in library '' @ toDirName l @ '':'' @ [CHR 0x0A]
          @ join [CHR 0x0A] (map (\<lambda>file. file @ '' is missing.'') (missing_files st l (Some fs)))"
  by (auto simp: checkFiles_def missing_files_def Let_def split: if_splits)

lemma checkFiles_ok:
  "checkFiles st l fs = Inr ok \<Longrightarrow> missing_files st l (Some fs) = []"
  by (auto simp: checkFiles_def missing_files_def Let_def split: if_splits)

lemma reports_missing_line:
  assumes "message err = h1 @ h2 @ h3 @ h4 @ join nl (map (\<lambda>file. file @ '' is missing.'') fs)"
    and "f \<in> set fs"
  shows "reports_missing err f"
proof -
  have "sublist (f @ '' is missing.'') (join nl (map (\<lambda>file. file @ '' is missing.'') fs))"
    using assms(2) by (intro sublist_join) auto
  then show ?thesis
    unfolding reports_missing_def assms(1) by (simp add: sublist_append)
qed

lemma mem_addLibraryFile_keeps:
  "mem_fileExists st l p \<Longrightarrow> mem_fileExists (snd (mem_addLibraryFile l f s st)) l p"
  by (auto simp: mem_fileExists_def mem_addLibraryFile_def lookup_put update_conv'
      split: option.splits read_stream.splits)

lemma mem_addLibraryFile_adds:
  "mem_addLibraryFile l f s st = (Inr ok, st') \<Longrightarrow> mem_fileExists st' l f"
  by (auto simp: mem_fileExists_def mem_addLibraryFile_def lookup_put update_conv'
      split: option.splits read_stream.splits if_splits)

lemma copy_one_keeps:
  "mem_fileExists (snd acc) l p \<Longrightarrow> mem_fileExists (snd (copy_one l f acc)) l p"
proof -
  obtain q en where f: "f = (q, en)" by (cases f)
  obtain err st where acc: "acc = (err, st)" by (cases acc)
  assume "mem_fileExists (snd acc) l p"
  then show ?thesis
    using mem_addLibraryFile_keeps [of st l p q "createReadStream en"]
    by (auto simp: copy_one_def f acc split: prod.splits sum.splits)
qed

lemma fold_copy_one_keeps:
  "mem_fileExists (snd acc) l p \<Longrightarrow> mem_fileExists (snd (fold (copy_one l) fs acc)) l p"
  by (induction fs arbitrary: acc) (simp_all add: copy_one_keeps)

lemma copy_one_error_sticks: "fst (copy_one l f acc) = None \<Longrightarrow> fst acc = None"
  by (cases f; cases acc)
    (auto simp: copy_one_def split: prod.splits sum.splits option.splits if_splits)

lemma fold_copy_one_error_sticks:
  "fst (fold (copy_one l) fs acc) = None \<Longrightarrow> fst acc = None"
proof (induction fs arbitrary: acc)
  case Nil
  then show ?case by simp
next
  case (Cons f fs)
  then have "fst (copy_one l f acc) = None" by simp
  then show ?case by (rule copy_one_error_sticks)
qed

lemma copy_one_adds:
  assumes "fst (copy_one l (p, File c) acc) = None" and "p \<noteq> ''library.json''"
  shows "mem_fileExists (snd (copy_one l (p, File c) acc)) l p"
proof -
  obtain err st where acc: "acc = (err, st)" by (cases acc)
  show ?thesis
    using assms mem_addLibraryFile_adds [of l p "Stream c" st]
    by (auto simp: copy_one_def acc createReadStream_def split: prod.splits sum.splits option.splits)
qed

lemma fold_copy_one_adds:
  assumes "fst (fold (copy_one l) fs acc) = None"
    and "(p, File c) \<in> set fs" and "p \<noteq> ''library.json''"
  shows "mem_fileExists (snd (fold (copy_one l) fs acc)) l p"
  using assms
proof (induction fs arbitrary: acc)
  case Nil
  then show ?case by simp
next
  case (Cons f fs)
  have ok: "fst (copy_one l f acc) = None"
    using Cons.prems(1) fold_copy_one_error_sticks [of l fs "copy_one l f acc"] by simp
  show ?case
  proof (cases "f = (p, File c)")
    case True
    then have "mem_fileExists (snd (copy_one l f acc)) l p"
      using copy_one_adds [of l p c acc] ok Cons.prems(3) by simp
    then show ?thesis
      using fold_copy_one_keeps [of "copy_one l f acc" l p fs] by simp
  next
    case False
    then have "(p, File c) \<in> set fs" using Cons.prems(2) by simp
    then show ?thesis
      using Cons.IH [of "copy_one l f acc"] Cons.prems by simp
  qed
qed

lemma copyLibraryFiles_copies_selected:
  assumes "copyLibraryFiles dir l st = (Inr (), st')"
    and "(p, File c) \<in> set dir" and "glob_match p" and "p \<noteq> ''library.json''"
  shows "mem_fileExists st' l p"
proof -
  obtain err s where r: "fold (copy_one l) (globPromise dir) (None, st) = (err, s)"
    by (cases "fold (copy_one l) (globPromise dir) (None, st)")
  have "err = None" and "s = st'"
    using assms(1) r by (auto simp: copyLibraryFiles_def split: option.splits)
  moreover have "(p, File c) \<in> set (globPromise dir)"
    using assms(2,3) by (simp add: globPromise_def)
  ultimately show ?thesis
    using fold_copy_one_adds [of l "globPromise dir" "(None, st)" p c] r assms(4) by simp
qed

section \<open>Facts about cache keys and the cache\<close>

lemma toUberName_key: "key_of a = key_of b \<Longrightarrow> toUberName a = toUberName b"
  by (simp add: key_of_def toUberName_def toUberName_opt_def)

lemma append_last_differs:
  "a \<noteq> [] \<Longrightarrow> b \<noteq> [] \<Longrightarrow> last a \<noteq> last b \<Longrightarrow> xs @ a \<noteq> ys @ b"
  by (metis last_appendR)

lemma file_tags_differ:
  "f1 @ ''-json'' \<noteq> f2 @ ''-string''"
  "f1 @ ''-json'' \<noteq> f2 @ ''-exists''"
  "f1 @ ''-string'' \<noteq> f2 @ ''-json''"
  "f1 @ ''-string'' \<noteq> f2 @ ''-exists''"
  "f1 @ ''-exists'' \<noteq> f2 @ ''-json''"
  "f1 @ ''-exists'' \<noteq> f2 @ ''-string''"
  by (rule append_last_differs; simp)+

lemma count_dots_differs:
  assumes "length (filter (\<lambda>c. c = CHR ''.'') x) \<noteq> length (filter (\<lambda>c. c = CHR ''.'') y)"
  shows "x \<noteq> y"
  using assms by auto

lemma uber_key_differs_from_list_key:
  "m @ ''-'' @ a @ ''.'' @ b \<noteq> ''installed-library-names-'' @ m"
  by (rule count_dots_differs) simp

lemma uber_key_differs_from_global_keys:
  "m @ ''-'' @ a @ ''.'' @ b \<noteq> ''installed-library-names''"
  "m @ ''-'' @ a @ ''.'' @ b \<noteq> ''addons''"
  by (rule count_dots_differs, simp)+

lemma list_key_differs_from_global_keys:
  "''installed-library-names-'' @ m \<noteq> ''installed-library-names''"
  "''installed-library-names-'' @ m \<noteq> ''addons''"
  by simp_all

lemma cached_reads_use_operation_key:
  "cached_getFileAsJson S l f c =
     cache_wrap (operation_key l (FileAsJson f))
       (\<lambda>s. tagged VJson (storage_getFileAsJson S (name_of l) f s)) c"
  "cached_getFileAsString S l f c =
     cache_wrap (operation_key l (FileAsString f))
       (\<lambda>s. tagged VText (storage_getFileAsString S (name_of l) f s)) c"
  "cached_fileExists S l f c =
     cache_wrap (operation_key l (FileExists f))
       (\<lambda>s. tagged VBool (storage_fileExists S (name_of l) f s)) c"
  "cached_getLibrary S l c =
     cache_wrap (operation_key l GetLibrary)
       (\<lambda>s. tagged VLibrary (storage_getLibrary S (name_of l) s)) c"
  "cached_getLanguages S l c =
     cache_wrap (operation_key l GetLanguages)
       (\<lambda>s. tagged VLanguages (storage_getLanguages S (name_of l) s)) c"
  "cached_isInstalled S l c =
     cache_wrap (operation_key l IsInstalled)
       (\<lambda>s. tagged VBool (storage_isInstalled S (name_of l) s)) c"
  "cached_getInstalledLibraryNames S (Some (machineName l)) c =
     cache_wrap (if machineName l \<noteq> [] then operation_key l InstalledNamesOfMachineName
                 else operation_key l InstalledNames)
       (\<lambda>s. tagged VNames (storage_getInstalledLibraryNames S
              (if machineName l \<noteq> [] then Some (machineName l) else None) s)) c"
  "cached_getInstalledLibraryNames S None c =
     cache_wrap (operation_key l InstalledNames)
       (\<lambda>s. tagged VNames (storage_getInstalledLibraryNames S None s)) c"
  "storage_listAddons S = Some addons \<Longrightarrow>
   cached_listAddons S c =
     cache_wrap (operation_key l ListAddons) (\<lambda>s. tagged VAddons (addons s)) c"
  by (simp_all add: cached_getFileAsJson_def cached_getFileAsString_def cached_fileExists_def
      cached_getLibrary_def cached_getLanguages_def cached_isInstalled_def
      cached_getInstalledLibraryNames_def cached_listAddons_def)

section \<open>Facts about package validation\<close>

lemma structural_check_kind:
  "structural_check lim n es = Some err \<Longrightarrow> \<exists>m. err = StructuralError m"
  by (induction es arbitrary: n) (auto split: if_splits)

lemma structural_check_escape:
  "e \<in> set es \<Longrightarrow> escapes_root (fileName e) \<Longrightarrow> structural_check lim n es \<noteq> None"
  by (induction es arbitrary: n) auto

lemma extractPackage_unguarded:
  "extractPackage ex_evil_package ''/tmp/h5p-1''
     \<lparr>includeLibraries = True, includeContent = False, includeMetadata = False\<rparr> []
   = (Inr (),
      [(''/tmp/h5p-1/H5P.Test-1.0/library.json'', Descriptor ex_metadata),
       (''/tmp/h5p-1/H5P.Test-1.0/main.js'', Bytes ''js''),
       (''/tmp/h5p-1/H5P.Test-1.0/style.css'', Bytes ''css''),
       (''/evil.sh'', Bytes ''evil'')])"
  by code_simp

section \<open>The claims\<close>

text \<open>
  Claim C1. When the \<open>try\<close> block of an install (copying the files, then the
  consistency check) or of an update (storing the metadata, clearing the files, copying,
  checking) fails with an error \<open>e\<close>, the manager's call fails with that same error
  and \<open>getId\<close> of the identity returns nothing afterwards: the roll-back removes
  the identity, in the update case together with the version that was installed.
\<close>

theorem failed_install_or_update_removes_identity:
  "(mem_installLibrary m r st = (Inr info, st1)
      \<and> installLibrary_try dir info m st1 = (Inl e, st2)
    \<longrightarrow> fst (installLibrary dir m r st) = Inl e
        \<and> getId (snd (installLibrary dir m r st)) m = None)
   \<and> (updateLibrary_try m dir st = (Inl e, st2)
    \<longrightarrow> fst (updateLibrary m dir st) = Inl e
        \<and> getId (snd (updateLibrary m dir st)) m = None)"
proof (intro conjI impI)
  assume a: "mem_installLibrary m r st = (Inr info, st1)
      \<and> installLibrary_try dir info m st1 = (Inl e, st2)"
  then have inst: "lookup st2 m \<noteq> None"
    using installLibrary_try_installed [of dir info m st1 m] mem_installLibrary_installed [of m r st info st1]
    by simp
  have eq: "installLibrary dir m r st = rollback m e st2"
    using a by (simp add: installLibrary_def)
  show "fst (installLibrary dir m r st) = Inl e"
    using inst by (simp only: eq rollback_error if_False fst_conv)
  show "getId (snd (installLibrary dir m r st)) m = None"
    by (simp add: eq rollback_removes)
next
  assume a: "updateLibrary_try m dir st = (Inl e, st2)"
  have eq: "updateLibrary m dir st = rollback m e st2"
    using a by (simp add: updateLibrary_def)
  show "getId (snd (updateLibrary m dir st)) m = None"
    by (simp add: eq rollback_removes)
  show "fst (updateLibrary m dir st) = Inl e"
  proof (cases "lookup st m = None")
    case True
    then have "e = not_installed m" and "st2 = st"
      using a updateLibrary_try_absent [of st m dir] by simp_all
    then show ?thesis
      using True by (simp add: eq rollback_error)
  next
    case False
    then have "lookup st2 m \<noteq> None"
      using updateLibrary_try_installed [of m dir st m] a by simp
    then show ?thesis by (simp only: eq rollback_error if_False fst_conv)
  qed
qed

theorem failed_install_or_update_removes_identity_witness:
  "fst (installLibrary ex_dir_missing_asset ex_metadata False ex_empty) = Inl ex_missing_error
   \<and> getId (snd (installLibrary ex_dir_missing_asset ex_metadata False ex_empty)) ex_metadata = None
   \<and> fst (updateLibrary ex_metadata_patch2 ex_dir_patch2_missing_asset ex_installed)
       = Inl ex_missing_error
   \<and> getId (snd (updateLibrary ex_metadata_patch2 ex_dir_patch2_missing_asset ex_installed))
         ex_metadata_patch2 = None"
proof -
  have h1: "mem_installLibrary ex_metadata False ex_empty = (Inr ex_info, ex_reserved)"
    by code_simp
  have h2: "installLibrary_try ex_dir_missing_asset ex_info ex_metadata ex_reserved
            = (Inl ex_missing_error, ex_copied)"
    by code_simp
  have h3: "updateLibrary_try ex_metadata_patch2 ex_dir_patch2_missing_asset ex_installed
            = (Inl ex_missing_error, ex_updated_empty)"
    by code_simp
  show ?thesis
    using failed_install_or_update_removes_identity
            [where m = ex_metadata and r = False and st = ex_empty and info = ex_info
               and ?st1.0 = ex_reserved and dir = ex_dir_missing_asset
               and e = ex_missing_error and ?st2.0 = ex_copied]
          failed_install_or_update_removes_identity
            [where m = ex_metadata_patch2 and st = ex_installed
               and dir = ex_dir_patch2_missing_asset and e = ex_missing_error
               and ?st2.0 = ex_updated_empty]
          h1 h2 h3
    by blast
qed

text \<open>
  Claim C2 (the code at a failing input). The wrapped storage holds the library with
  the language file \<open>language/en.json\<close>. Through the cached storage: \<open>getLanguages\<close>
  returns \<open>en\<close>; \<open>addFile\<close> adds \<open>language/de.json\<close> and succeeds; the wrapped
  storage now lists \<open>en\<close> and \<open>de\<close>, and \<open>getLanguages\<close> of the cached storage
  still returns \<open>en\<close> alone: \<open>addFile\<close> deletes the three keys of the file and
  not the languages key of the library.
\<close>

theorem addFile_leaves_languages_stale:
  "(let S = mem_storage;
        (r1, c1) = cached_getLanguages S ex_metadata ex_cached_en;
        (r2, c2) = cached_addFile S ex_metadata ''language/de.json'' (Stream (Bytes ''{}'')) c1;
        (r3, c3) = cached_getLanguages S ex_metadata c2
    in r1 = Inr (VLanguages [''en''])
       \<and> r2 = Inr True
       \<and> storage_getLanguages S (name_of ex_metadata) (backing c2) = Inr [''en'', ''de'']
       \<and> r3 = Inr (VLanguages [''en'']))"
  by code_simp

text \<open>
  What the cached storage does guarantee: a read whose key the last write deleted goes
  to the wrapped storage. After a successful \<open>addFile\<close>, the three reads of that file
  return what the wrapped storage holds after the write.
\<close>

lemma cache_wrap_miss:
  "cache c k = None \<Longrightarrow> fst (cache_wrap k producer c) = producer (backing c)"
  by (simp add: cache_wrap_def split: sum.splits)

lemma addFile_then_read_file:
  assumes "cached_addFile S l f s c = (Inr ok, c')"
  shows "fst (cached_fileExists S l f c') = tagged VBool (storage_fileExists S (name_of l) f (backing c'))"
    and "fst (cached_getFileAsJson S l f c') = tagged VJson (storage_getFileAsJson S (name_of l) f (backing c'))"
    and "fst (cached_getFileAsString S l f c') = tagged VText (storage_getFileAsString S (name_of l) f (backing c'))"
proof -
  have "\<exists>c1. c' = deleteFileCache l f c1"
    using assms by (auto simp: cached_addFile_def split: prod.splits sum.splits)
  then obtain c1 where c': "c' = deleteFileCache l f c1" ..
  have "cache c' (getCacheKeyForFile l f FILE_EXISTS_CACHE_KEY) = None"
    and "cache c' (getCacheKeyForFile l f JSON_CACHE_KEY) = None"
    and "cache c' (getCacheKeyForFile l f STRING_CACHE_KEY) = None"
    by (simp_all add: c' deleteFileCache_def cache_del_def)
  then show "fst (cached_fileExists S l f c') = tagged VBool (storage_fileExists S (name_of l) f (backing c'))"
    and "fst (cached_getFileAsJson S l f c') = tagged VJson (storage_getFileAsJson S (name_of l) f (backing c'))"
    and "fst (cached_getFileAsString S l f c') = tagged VText (storage_getFileAsString S (name_of l) f (backing c'))"
    by (simp_all add: cached_fileExists_def cached_getFileAsJson_def cached_getFileAsString_def
        cache_wrap_miss)
qed


text \<open>
  Claim C3. Processing a package that holds an entry whose normalized path escapes the
  extraction root fails with a structural error, and the disk, the library storage and
  the content are left as they were: nothing of the archive is written, inside the
  temporary directory or outside it. The check is the validator's first step, which
  \<open>processPackage\<close> runs before it extracts; \<open>extractPackage\<close> itself joins every
  selected name to the directory unchecked (\<open>extractPackage_unguarded\<close>).
\<close>

theorem zip_slip_package_rejected:
  assumes "e \<in> set package" and "escapes_root (fileName e)"
  shows "\<exists>m. processPackage env package opts w = (Inl (StructuralError m), w)"
proof -
  obtain err where err: "structural_check (limits env) 0 package = Some err"
    using structural_check_escape [OF assms, of "limits env" 0] by auto
  then obtain m where m: "err = StructuralError m"
    using structural_check_kind by blast
  show ?thesis
    by (simp add: processPackage_def validatePackage_def err m rethrow_def)
qed

theorem zip_slip_package_rejected_witness:
  "escapes_root ''../../evil.sh''
   \<and> processPackage ex_surroundings ex_evil_package
        \<lparr>installLibraries = True, copyContent = False\<rparr> ex_world
      = (Inl (StructuralError ''The entry ../../evil.sh escapes the extraction root.''), ex_world)"
proof -
  let ?e = "\<lparr>fileName = ''../../evil.sh'', uncompressedSize = 4, fileData = Bytes ''evil''\<rparr>"
  have h1: "?e \<in> set ex_evil_package" by (simp add: ex_evil_package_def)
  have h2: "escapes_root (fileName ?e)" by code_simp
  obtain m where m: "processPackage ex_surroundings ex_evil_package
        \<lparr>installLibraries = True, copyContent = False\<rparr> ex_world = (Inl (StructuralError m), ex_world)"
    using zip_slip_package_rejected [OF h1 h2] by blast
  have v: "fst (processPackage ex_surroundings ex_evil_package
        \<lparr>installLibraries = True, copyContent = False\<rparr> ex_world)
      = Inl (StructuralError ''The entry ../../evil.sh escapes the extraction root.'')"
    by code_simp
  have "m = ''The entry ../../evil.sh escapes the extraction root.''"
    using m v by simp
  then show ?thesis using m h2 by simp
qed






text \<open>
  The writes that await the wrapped storage before they touch the cache, here
  \<open>addFile\<close> and \<open>updateLibrary\<close>, started on an empty log.
\<close>

lemma addFile_awaits_before_invalidation:
  "events c = [] \<Longrightarrow> invalidation_after_write (events (snd (cached_addFile S l f s c)))"
  by (auto simp: cached_addFile_def await_write_def deleteFileCache_def cache_del_def
      split: prod.splits sum.splits)

lemma updateLibrary_awaits_before_invalidation:
  "events c = [] \<Longrightarrow> invalidation_after_write (events (snd (cached_updateLibrary S m c)))"
  by (auto simp: cached_updateLibrary_def await_write_def cache_del_def
      split: prod.splits sum.splits)

text \<open>
  Claim C5 (the code at a failing input). \<open>addLibrary\<close> of the cached storage, on any
  input: the log shows the call of the wrapped storage's \<open>addLibrary\<close>, then the four
  cache deletions, and only then the point where the write's promise is awaited. On
  an empty log, the deletions are not after the write.
\<close>

theorem addLibrary_invalidates_before_write_is_awaited:
  "events (snd (cached_addLibrary S m r c)) =
     events c @ [WriteCall ''addLibrary'',
                 CacheDel INSTALLED_LIBRARY_NAMES_CACHE_KEY,
                 CacheDel ADDONS_CACHE_KEY,
                 CacheDel (getCacheKeyForMetadata m LIBRARY_IS_INSTALLED_CACHE_KEY),
                 CacheDel (getCacheKeyForLibraryListByMachineName (machineName m)),
                 WriteDone ''addLibrary'']
   \<and> (events c = [] \<longrightarrow> \<not> invalidation_after_write (events (snd (cached_addLibrary S m r c))))"
  by (simp add: cached_addLibrary_def cache_del_def Let_def split: prod.splits)

theorem addLibrary_invalidates_before_write_is_awaited_witness:
  "events (snd (cached_addLibrary mem_storage ex_metadata False ex_cached_empty)) =
     [WriteCall ''addLibrary'', CacheDel ''installed-library-names'', CacheDel ''addons'',
      CacheDel ''H5P.Test-1.0-is-installed'', CacheDel ''installed-library-names-H5P.Test'',
      WriteDone ''addLibrary'']
   \<and> \<not> invalidation_after_write
         (events (snd (cached_addLibrary mem_storage ex_metadata False ex_cached_empty)))"
proof -
  have e: "events ex_cached_empty = []" by (simp add: ex_cached_empty_def)
  have k1: "getCacheKeyForMetadata ex_metadata LIBRARY_IS_INSTALLED_CACHE_KEY
            = ''H5P.Test-1.0-is-installed''" by code_simp
  have k2: "getCacheKeyForLibraryListByMachineName (machineName ex_metadata)
            = ''installed-library-names-H5P.Test''" by code_simp
  show ?thesis
    using addLibrary_invalidates_before_write_is_awaited
            [of mem_storage ex_metadata False ex_cached_empty] e k1 k2
    by (simp add: INSTALLED_LIBRARY_NAMES_CACHE_KEY_def ADDONS_CACHE_KEY_def)
qed


text \<open>
  Claim C6. The key of a cached operation is a function of the library's identity
  (machine name, major and minor version), the file name and the operation: two
  library objects with the same identity, whatever else they hold, give the same key.
  On one library, two different cached operations (reading a file as JSON, as text,
  testing its existence, for any file names; the metadata, the languages, the
  installed flag; the list of installed versions of its machine name and the two global
  lists) have different keys.
\<close>

theorem cache_keys_deterministic_and_distinct:
  "(key_of a = key_of b \<longrightarrow> operation_key a op = operation_key b op)
   \<and> (operation_key l op1 = operation_key l op2 \<longrightarrow> op1 = op2)"
proof
  show "key_of a = key_of b \<longrightarrow> operation_key a op = operation_key b op"
    by (cases op)
      (auto simp: getCacheKeyForFile_def getCacheKeyForMetadata_def key_of_def
         toUberName_def toUberName_opt_def)
  show "operation_key l op1 = operation_key l op2 \<longrightarrow> op1 = op2"
    using file_tags_differ
      uber_key_differs_from_list_key [of "machineName l"]
      uber_key_differs_from_list_key [of "machineName l", symmetric]
      uber_key_differs_from_global_keys [of "machineName l"]
      uber_key_differs_from_global_keys [of "machineName l", symmetric]
      list_key_differs_from_global_keys [of "machineName l"]
      list_key_differs_from_global_keys [of "machineName l", symmetric]
    by (cases op1; cases op2)
      (simp_all add: getCacheKeyForFile_def getCacheKeyForMetadata_def JSON_CACHE_KEY_def
        STRING_CACHE_KEY_def FILE_EXISTS_CACHE_KEY_def METADATA_CACHE_KEY_def
        LANGUAGES_CACHE_KEY_def LIBRARY_IS_INSTALLED_CACHE_KEY_def
        getCacheKeyForLibraryListByMachineName_def INSTALLED_LIBRARY_NAMES_CACHE_KEY_def
        ADDONS_CACHE_KEY_def toUberName_def toUberName_opt_def default_options_def)
qed

theorem cache_keys_deterministic_and_distinct_witness:
  "operation_key ex_metadata (FileExists ''main.js'') = operation_key ex_info (FileExists ''main.js'')
   \<and> operation_key ex_metadata (FileExists ''main.js'') = ''H5P.Test-1.0/main.js-exists''
   \<and> operation_key ex_metadata (FileAsJson ''main.js'') \<noteq> operation_key ex_metadata (FileExists ''main.js'')"
proof -
  have k: "key_of ex_metadata = key_of ex_info" by code_simp
  have v: "operation_key ex_metadata (FileExists ''main.js'') = ''H5P.Test-1.0/main.js-exists''"
    by code_simp
  have a: "operation_key ex_metadata (FileExists ''main.js'')
           = operation_key ex_info (FileExists ''main.js'')"
    using cache_keys_deterministic_and_distinct
            [of ex_metadata ex_info "FileExists ''main.js''"] k
    by blast
  have b: "operation_key ex_metadata (FileAsJson ''main.js'')
           \<noteq> operation_key ex_metadata (FileExists ''main.js'')"
    using cache_keys_deterministic_and_distinct
            [of _ _ _ ex_metadata "FileAsJson ''main.js''" "FileExists ''main.js''"]
    by blast
  show ?thesis
    by (intro conjI) (rule a, rule v, rule b)
qed


text \<open>
  Claim C7 (amended). When the consistency check of an installed library with a
  readable \<open>library.json\<close> fails, the error lists every missing file of the first
  asset list that has one: every missing \<open>preloadedJs\<close> path, or, when none of those
  is missing, every missing \<open>preloadedCss\<close> path. The message is the header line
  followed by one line per such file.
\<close>

theorem checkConsistency_reports_first_list:
  assumes "truthy (mem_getId st l)"
    and "getJsonFile st l ''library.json'' = Inr metadata"
    and "checkConsistency st l = Inl err"
  shows "(\<forall>f \<in> set (missing_files st l (preloadedJs metadata)). reports_missing err f)
       \<and> (missing_files st l (preloadedJs metadata) = [] \<longrightarrow>
            (\<forall>f \<in> set (missing_files st l (preloadedCss metadata)). reports_missing err f))
       \<and> message err = ''Error(s) in library '' @ toDirName l @ '':'' @ [CHR 0x0A]
            @ join [CHR 0x0A] (map (\<lambda>file. file @ '' is missing.'')
                (if missing_files st l (preloadedJs metadata) \<noteq> []
                 then missing_files st l (preloadedJs metadata)
                 else missing_files st l (preloadedCss metadata)))"
proof (cases "missing_files st l (preloadedJs metadata) = []")
  case False
  then obtain js where js: "preloadedJs metadata = Some js"
    by (cases "preloadedJs metadata") (auto simp: missing_files_def)
  have "checkFiles st l js = Inl err"
    using assms False js checkFiles_ok [of st l js]
    by (auto simp: checkConsistency_def split: sum.splits option.splits)
  then have msg: "message err = ''Error(s) in library '' @ toDirName l @ '':'' @ [CHR 0x0A]
          @ join [CHR 0x0A] (map (\<lambda>file. file @ '' is missing.'') (missing_files st l (Some js)))"
    using checkFiles_error [of st l js err] by simp
  show ?thesis
    using False msg reports_missing_line [OF msg] by (simp add: js)
next
  case True
  have jsok: "(case preloadedJs metadata of None \<Rightarrow> Inr True | Some js \<Rightarrow> checkFiles st l js) = Inr True"
    using True by (auto simp: checkFiles_def missing_files_def split: option.splits)
  then obtain css where css: "preloadedCss metadata = Some css" and cf: "checkFiles st l css = Inl err"
    using assms by (auto simp: checkConsistency_def split: sum.splits option.splits)
  have msg: "message err = ''Error(s) in library '' @ toDirName l @ '':'' @ [CHR 0x0A]
          @ join [CHR 0x0A] (map (\<lambda>file. file @ '' is missing.'') (missing_files st l (Some css)))"
    using checkFiles_error [OF cf] by simp
  show ?thesis
    using True msg reports_missing_line [OF msg] by (simp add: css)
qed

theorem checkConsistency_reports_first_list_witness:
  "reports_missing ex_missing_error ''main.js''
   \<and> message ex_missing_error = ''Error(s) in library H5P.Test-1.0:'' @ [CHR 0x0A]
        @ ''main.js is missing.''"
proof -
  have h1: "truthy (mem_getId ex_copied ex_metadata)" by code_simp
  have h2: "getJsonFile ex_copied ex_metadata ''library.json'' = Inr ex_metadata" by code_simp
  have h3: "checkConsistency ex_copied ex_metadata = Inl ex_missing_error" by code_simp
  have m: "missing_files ex_copied ex_metadata (preloadedJs ex_metadata) = [''main.js'']"
    by code_simp
  show ?thesis
    using checkConsistency_reports_first_list [OF h1 h2 h3] m
    by (simp add: ex_missing_error_def)
qed

text \<open>
  The claim without the amendment (every missing file of both lists is reported) fails
  on a library that declares \<open>main.js\<close> and \<open>style.css\<close> and holds neither: the
  error names \<open>main.js\<close> only.
\<close>

theorem checkConsistency_all_missing_counterexample:
  "checkConsistency ex_reserved ex_metadata = Inl ex_missing_error
   \<and> preloadedCss ex_metadata = Some [''style.css'']
   \<and> \<not> mem_fileExists ex_reserved ex_metadata ''style.css''
   \<and> \<not> reports_missing ex_missing_error ''style.css''"
  by code_simp


text \<open>
  Claim C8 (the code at a failing input). The directory \<open>ex_dir\<close> holds the file
  \<open>LICENSE\<close>; the fresh install succeeds, and the storage does not hold \<open>LICENSE\<close>
  for the new library: the pattern \<open>**/*.*\<close> selects only names that contain a dot.
\<close>

theorem copyLibraryFiles_skips_name_without_dot:
  "map_of ex_dir ''LICENSE'' = Some (File (Bytes ''MIT''))
   \<and> fst (installLibrary ex_dir ex_metadata False ex_empty) = Inr ex_info
   \<and> \<not> mem_fileExists (snd (installLibrary ex_dir ex_metadata False ex_empty)) ex_metadata ''LICENSE''
   \<and> mem_listFiles (snd (installLibrary ex_dir ex_metadata False ex_empty)) ex_metadata
       = Inr [''main.js'', ''style.css'']"
  by code_simp




text \<open>
  Claim C10. On a wrapped storage without the optional \<open>listAddons\<close> method, the
  cached storage's \<open>listAddons\<close> returns the empty list, without an error, and
  leaves the storage and the cache as they are.
\<close>

theorem listAddons_without_capability:
  "storage_listAddons S = None \<Longrightarrow> cached_listAddons S c = (Inr (VAddons []), c)"
  by (simp add: cached_listAddons_def)

theorem listAddons_without_capability_witness:
  "storage_listAddons mem_storage = None
   \<and> cached_listAddons mem_storage ex_cached = (Inr (VAddons []), ex_cached)"
proof -
  have h: "storage_listAddons mem_storage = None" by (simp add: mem_storage_def)
  show ?thesis using listAddons_without_capability [OF h, of ex_cached] h by simp
qed


end
